theory Spec2Isabelle
  imports Main
begin

section \<open>v4m: a shallow embedding of \<open>src/v4m.c\<close>\<close>

text \<open>
  The program provisions and launches one virtual machine. Everything it does goes
  through the file system, the clock, the C library's pseudo-random generator and external
  commands run with \<open>system\<close> and \<open>popen\<close>. The embedding threads a \<open>world\<close>
  (what the program can change) through every function and takes an \<open>env\<close> (what
  the program can only observe) as a parameter.
\<close>

subsection \<open>C strings and formatting\<close>

abbreviation nl :: char where "nl \<equiv> CHR 0x0A"
abbreviation dq :: string where "dq \<equiv> [CHR 0x22]"

definition MAX_PATH :: nat where "MAX_PATH = 1024"
definition MAX_NAME :: nat where "MAX_NAME = 256"

definition DEFAULT_DISTRO :: string where "DEFAULT_DISTRO = ''debian12''"
definition DEFAULT_USER :: string where "DEFAULT_USER = ''user01''"
definition DEFAULT_MEMORY :: string where "DEFAULT_MEMORY = ''4096''"
definition DEFAULT_CPUS :: string where "DEFAULT_CPUS = ''4''"
definition DEFAULT_DISK_SIZE :: string where "DEFAULT_DISK_SIZE = ''20G''"

text \<open>
  \<open>snprintf(buf, size, ...)\<close> stores at most \<open>size - 1\<close> characters of the
  formatted text; the argument \<open>s\<close> is the text already formatted.
\<close>

definition snprintf :: "nat \<Rightarrow> string \<Rightarrow> string" where
  "snprintf sz s = take (sz - 1) s"

text \<open>
  \<open>strncpy(buf, src, n)\<close> into a buffer of \<open>n + 1\<close> bytes whose last byte is
  never written and starts as zero: the buffer then holds the first \<open>n\<close> characters.
\<close>

definition strncpy :: "nat \<Rightarrow> string \<Rightarrow> string" where
  "strncpy n src = take n src"

text \<open>The conversion \<open>%d\<close> of a non-negative number: decimal, no padding.\<close>

definition digit :: "nat \<Rightarrow> char" where
  "digit n = ''0123456789'' ! n"

fun dec :: "nat \<Rightarrow> string" where
  "dec n = (if n < 10 then [digit n] else dec (n div 10) @ [digit (n mod 10)])"

declare dec.simps [simp del]

text \<open>
  \<open>fgets(buf, size, fp)\<close> on a stream whose remaining content is \<open>s\<close>: \<open>NULL\<close>
  at end of file, else at most \<open>size - 1\<close> characters, stopping after the first newline.
\<close>

fun read_line :: "nat \<Rightarrow> string \<Rightarrow> string" where
  "read_line 0 s = []"
| "read_line (Suc n) [] = []"
| "read_line (Suc n) (c # s) = (if c = nl then [c] else c # read_line n s)"

definition fgets :: "nat \<Rightarrow> string \<Rightarrow> string option" where
  "fgets sz s = (if s = [] \<or> sz \<le> 1 then None else Some (read_line (sz - 1) s))"

text \<open>\<open>buf[strcspn(buf, "\n")] = 0\<close> cuts the string at its first newline.\<close>

definition strip_newline :: "string \<Rightarrow> string" where
  "strip_newline s = takeWhile (\<lambda>c. c \<noteq> nl) s"

subsection \<open>The world and its environment\<close>

text \<open>
  A file holds bytes, or is the zero-filled file of a given length that \<open>dd\<close> writes, or
  is the volume that \<open>hdiutil\<close> builds from the two documents of the scratch directory.
\<close>

datatype contents = Bytes string | ZeroFill nat | IsoVolume "contents option" "contents option"

datatype node = Dir | File contents

type_synonym filesys = "string \<Rightarrow> node option"

datatype level = Info | Success | Warning | Error

text \<open>
  \<open>fs\<close> maps a path, exactly as the program spells it, to what is there;
  \<open>out\<close> is the sequence of lines printed through \<open>log_info\<close>, \<open>log_success\<close>,
  \<open>log_warning\<close> and \<open>log_error\<close> (plain \<open>printf\<close> output, the usage text and
  the final summary, is not recorded); \<open>cmds\<close> is the sequence of command lines handed
  to \<open>system\<close> and \<open>popen\<close>; \<open>rng\<close> is the state of the C library's
  generator; \<open>ticks\<close> counts the calls of \<open>time(NULL)\<close>.
\<close>

record world =
  fs :: filesys
  out :: "(level \<times> string) list"
  cmds :: "string list"
  rng :: nat
  ticks :: nat

text \<open>
  What the program observes and cannot change: \<open>HOME\<close> (taken to be set: the
  program hands \<open>getenv("HOME")\<close> to \<open>%s\<close> unchecked), the effective user id, the
  process id, the clock (the value of the k-th call of \<open>time(NULL)\<close>), the C library's
  generator (\<open>rand_val\<close> is the number \<open>rand()\<close> returns in a state, \<open>rand_next\<close>
  the state after it; neither is part of the repository), and the external
  commands: \<open>cmd_ok\<close> says whether the utilities behind a command line are able to do
  their work (network up, disk not full, binary installed), \<open>cmd_out\<close> is what a command
  run with \<open>popen\<close> prints (\<open>None\<close>: \<open>popen\<close> itself fails), \<open>open_ok\<close> whether
  the operating system lets \<open>fopen\<close> succeed on a path, \<open>payload\<close> what a URL
  delivers, \<open>resized\<close> what \<open>qemu-img resize\<close> makes of an image, \<open>utc_stamp\<close>
  what \<open>gmtime\<close> and \<open>strftime\<close> make of a time. Three more say what the model
  cannot work out: \<open>fork_ok\<close>, whether \<open>system\<close> can start the shell for a command
  line at all (for a command that runs in the foreground \<open>cmd_ok\<close> includes it);
  \<open>partial\<close>, the part of a file that a failed transfer from a URL leaves behind, if
  any; and \<open>popen_fs\<close>, what a command line does to the file system when part of it
  is text that the user supplied and the shell reads as commands.
\<close>

record env =
  home :: string
  euid :: nat
  pid :: nat
  time_at :: "nat \<Rightarrow> nat"
  rand_val :: "nat \<Rightarrow> nat"
  rand_next :: "nat \<Rightarrow> nat"
  cmd_ok :: "string \<Rightarrow> bool"
  cmd_out :: "string \<Rightarrow> string option"
  open_ok :: "string \<Rightarrow> bool"
  payload :: "string \<Rightarrow> contents"
  resized :: "contents \<Rightarrow> contents"
  utc_stamp :: "nat \<Rightarrow> string"
  fork_ok :: "string \<Rightarrow> bool"
  partial :: "string \<Rightarrow> contents option"
  popen_fs :: "string \<Rightarrow> filesys \<Rightarrow> filesys"

definition log_info :: "string \<Rightarrow> world \<Rightarrow> world" where
  "log_info message w = w\<lparr>out := out w @ [(Info, message)]\<rparr>"

definition log_success :: "string \<Rightarrow> world \<Rightarrow> world" where
  "log_success message w = w\<lparr>out := out w @ [(Success, message)]\<rparr>"

definition log_warning :: "string \<Rightarrow> world \<Rightarrow> world" where
  "log_warning message w = w\<lparr>out := out w @ [(Warning, message)]\<rparr>"

definition log_error :: "string \<Rightarrow> world \<Rightarrow> world" where
  "log_error message w = w\<lparr>out := out w @ [(Error, message)]\<rparr>"

text \<open>\<open>time(NULL)\<close>, \<open>srand\<close> (its argument is an \<open>unsigned int\<close>) and \<open>rand\<close>.\<close>

definition time_null :: "env \<Rightarrow> world \<Rightarrow> nat \<times> world" where
  "time_null env w = (time_at env (ticks w), w\<lparr>ticks := Suc (ticks w)\<rparr>)"

definition srand :: "nat \<Rightarrow> world \<Rightarrow> world" where
  "srand seed w = w\<lparr>rng := seed mod 4294967296\<rparr>"

definition rand :: "env \<Rightarrow> world \<Rightarrow> nat \<times> world" where
  "rand env w = (rand_val env (rng w), w\<lparr>rng := rand_next env (rng w)\<rparr>)"

subsection \<open>Identity generator\<close>

definition adjectives :: "string list" where
  "adjectives = [''fast'', ''quick'', ''smart'', ''bright'', ''cool'',
                 ''swift'', ''agile'', ''sharp'', ''clever'', ''rapid'']"

definition nouns :: "string list" where
  "nouns = [''vm'', ''box'', ''node'', ''server'', ''instance'',
            ''machine'', ''host'', ''system'', ''unit'', ''engine'']"

definition generate_vm_name :: "env \<Rightarrow> nat \<Rightarrow> world \<Rightarrow> string \<times> world" where
  "generate_vm_name env sz w =
     (let (t, w1) = time_null env w;
          w2 = srand t w1;
          (r1, w3) = rand env w2;
          adj_index = r1 mod 10;
          (r2, w4) = rand env w3;
          noun_index = r2 mod 10;
          (r3, w5) = rand env w4;
          num = r3 mod 100
      in (snprintf sz (adjectives ! adj_index @ ''-'' @ nouns ! noun_index @ ''-'' @ dec num), w5))"

definition chars :: string where
  "chars = ''ABCDEFGHIJKLMNOPQRSTUVWXYZabcdefghijklmnopqrstuvwxyz0123456789''"

text \<open>The loop \<open>for (i = 0; i < 12; i++) password[i] = chars[rand() % 62]\<close>, \<open>n\<close> rounds of it.\<close>

fun rand_chars :: "env \<Rightarrow> nat \<Rightarrow> world \<Rightarrow> string \<times> world" where
  "rand_chars env 0 w = ([], w)"
| "rand_chars env (Suc n) w =
     (let (r, w1) = rand env w;
          (cs, w2) = rand_chars env n w1
      in (chars ! (r mod 62) # cs, w2))"

definition password_cmd :: string where
  "password_cmd = ''openssl rand -base64 12 | tr -d '' @ dq @ ''=+/'' @ dq @ '' | cut -c1-12''"

text \<open>
  \<open>password\<close> is what the buffer holds on entry: it stays when \<open>fgets\<close> reads nothing.
\<close>

definition generate_password :: "env \<Rightarrow> string \<Rightarrow> nat \<Rightarrow> world \<Rightarrow> string \<times> world" where
  "generate_password env password sz w =
     (let w1 = w\<lparr>cmds := cmds w @ [password_cmd]\<rparr> in
      case cmd_out env password_cmd of
        Some output \<Rightarrow>
          (case fgets sz output of
             Some line \<Rightarrow> (strip_newline line, w1)
           | None \<Rightarrow> (password, w1))
      | None \<Rightarrow>
          (let (t, w2) = time_null env w1;
               w3 = srand t w2;
               (cs, w4) = rand_chars env 12 w3
           in (cs, w4)))"

text \<open>
  The three calls of \<open>rand()\<close> are arguments of one call of \<open>snprintf\<close>, so C leaves
  their order open; the model evaluates them left to right.
\<close>

definition hex2 :: "nat \<Rightarrow> string" where
  "hex2 n = [''0123456789abcdef'' ! (n div 16 mod 16), ''0123456789abcdef'' ! (n mod 16)]"

definition generate_mac :: "env \<Rightarrow> nat \<Rightarrow> world \<Rightarrow> string \<times> world" where
  "generate_mac env sz w =
     (let (t, w1) = time_null env w;
          w2 = srand t w1;
          (r1, w3) = rand env w2;
          (r2, w4) = rand env w3;
          (r3, w5) = rand env w4
      in (snprintf sz (''52:54:00:'' @ hex2 (r1 mod 256) @ '':'' @ hex2 (r2 mod 256)
                          @ '':'' @ hex2 (r3 mod 256)), w5))"

subsection \<open>File system and external commands\<close>

definition file_exists :: "filesys \<Rightarrow> string \<Rightarrow> bool" where
  "file_exists f path = (case f path of Some (File c) \<Rightarrow> True | _ \<Rightarrow> False)"

definition dir_exists :: "filesys \<Rightarrow> string \<Rightarrow> bool" where
  "dir_exists f path = (case f path of Some Dir \<Rightarrow> True | _ \<Rightarrow> False)"

text \<open>The path without its last component, and the last component.\<close>

definition dirname :: "string \<Rightarrow> string" where
  "dirname p = rev (drop 1 (dropWhile (\<lambda>c. c \<noteq> CHR ''/'') (rev p)))"

definition basename :: "string \<Rightarrow> string" where
  "basename p = rev (takeWhile (\<lambda>c. c \<noteq> CHR ''/'') (rev p))"

text \<open>
  A file or directory can be created at \<open>p\<close> only inside an existing directory; the root
  directory and the working directory (an empty \<open>dirname\<close>) always exist.
\<close>

definition parent_dir :: "filesys \<Rightarrow> string \<Rightarrow> bool" where
  "parent_dir f p = (dirname p = [] \<or> f (dirname p) = Some Dir)"

text \<open>\<open>q\<close> lies below the directory \<open>p\<close>.\<close>

definition under :: "string \<Rightarrow> string \<Rightarrow> bool" where
  "under p q = (take (Suc (length p)) q = p @ ''/'')"

text \<open>\<open>mkdir(path, 0755)\<close>; the program never looks at its result.\<close>

definition mkdir :: "string \<Rightarrow> world \<Rightarrow> world" where
  "mkdir path w =
     (if fs w path = None \<and> parent_dir (fs w) path then w\<lparr>fs := (fs w)(path \<mapsto> Dir)\<rparr> else w)"

text \<open>
  \<open>remove(path)\<close> deletes a file, or a directory that has nothing below it; its result is
  never looked at either.
\<close>

definition remove :: "string \<Rightarrow> world \<Rightarrow> world" where
  "remove path w =
     (case fs w path of
        None \<Rightarrow> w
      | Some (File c) \<Rightarrow> w\<lparr>fs := (fs w)(path := None)\<rparr>
      | Some Dir \<Rightarrow>
          (if \<exists>q. fs w q \<noteq> None \<and> under path q then w else w\<lparr>fs := (fs w)(path := None)\<rparr>))"

text \<open>
  \<open>fopen(path, "w")\<close> succeeds when the operating system allows it, the directory is
  there and the path is not itself a directory. The text printed to the stream is the
  file's content once it is closed.
\<close>

definition can_write :: "env \<Rightarrow> filesys \<Rightarrow> string \<Rightarrow> bool" where
  "can_write env f path = (open_ok env path \<and> parent_dir f path \<and> f path \<noteq> Some Dir)"

definition write_file :: "string \<Rightarrow> string \<Rightarrow> world \<Rightarrow> world" where
  "write_file path text w = w\<lparr>fs := (fs w)(path \<mapsto> File (Bytes text))\<rparr>"

text \<open>
  \<open>system(command)\<close>. The command line is recorded. It exits with 0 when the
  environment lets it work and the utility can do its work on this file system:
  \<open>effect\<close> is what the utility does to the file system, \<open>None\<close> when it cannot.
  A command that fails leaves the file system as it was (but see \<open>curl_partial\<close>
  for a transfer). How the shell reads quotes,
  dollars and backslashes inside a name is outside the model: the utilities get the names
  as the program formatted them.
\<close>

definition system :: "env \<Rightarrow> string \<Rightarrow> (filesys \<Rightarrow> filesys option) \<Rightarrow> world \<Rightarrow> nat \<times> world" where
  "system env command effect w =
     (let w1 = w\<lparr>cmds := cmds w @ [command]\<rparr>
      in if cmd_ok env command
         then (case effect (fs w1) of
                 Some f \<Rightarrow> (0, w1\<lparr>fs := f\<rparr>)
               | None \<Rightarrow> (1, w1))
         else (1, w1))"

text \<open>
  \<open>snprintf(buf, sz, ...); system(buf)\<close>, where \<open>full\<close> is the command line as
  formatted: a command line that \<open>snprintf\<close> cut short does not do the utility's work.
\<close>

definition system_buf :: "env \<Rightarrow> nat \<Rightarrow> string \<Rightarrow> (filesys \<Rightarrow> filesys option) \<Rightarrow> world \<Rightarrow> nat \<times> world" where
  "system_buf env sz full effect w =
     (let command = snprintf sz full
      in system env command (if command = full then effect else (\<lambda>f. None)) w)"

text \<open>
  \<open>snprintf(buf, sz, ...); system(buf)\<close> for a command line that ends in \<open>&\<close>. The
  shell starts the job in the background and exits with 0 at once, whatever becomes of the
  job: a missing binary or a log that cannot be written does not change the status.
  \<open>system\<close> returns non-zero only when the shell cannot be started. What the job does
  to the file system happens later and is not part of the world returned. A command line
  that \<open>snprintf\<close> cut short is no background job; like every such line it is taken
  to fail.
\<close>

definition system_bg :: "env \<Rightarrow> nat \<Rightarrow> string \<Rightarrow> world \<Rightarrow> nat \<times> world" where
  "system_bg env sz full w =
     (let command = snprintf sz full;
          w1 = w\<lparr>cmds := cmds w @ [command]\<rparr>
      in if command = full \<and> fork_ok env command then (0, w1) else (1, w1))"

text \<open>\<open>cp src dest\<close>: into \<open>dest\<close> when that is a directory, onto \<open>dest\<close> otherwise.\<close>

definition cp_effect :: "string \<Rightarrow> string \<Rightarrow> filesys \<Rightarrow> filesys option" where
  "cp_effect src dest f =
     (case f src of
        Some (File c) \<Rightarrow>
          (let target = (if f dest = Some Dir then dest @ ''/'' @ basename src else dest)
           in if parent_dir f target \<and> f target \<noteq> Some Dir
              then Some (f(target \<mapsto> File c)) else None)
      | _ \<Rightarrow> None)"

text \<open>\<open>curl -L -o path url\<close> writes what the URL delivers.\<close>

definition curl_effect :: "env \<Rightarrow> string \<Rightarrow> string \<Rightarrow> filesys \<Rightarrow> filesys option" where
  "curl_effect env path url f =
     (if parent_dir f path \<and> f path \<noteq> Some Dir
      then Some (f(path \<mapsto> File (payload env url))) else None)"

text \<open>A transfer that fails may leave a part of the file at the path.\<close>

definition curl_partial :: "env \<Rightarrow> string \<Rightarrow> string \<Rightarrow> filesys \<Rightarrow> filesys" where
  "curl_partial env path url f =
     (case partial env url of
        Some c \<Rightarrow> if parent_dir f path \<and> f path \<noteq> Some Dir then f(path \<mapsto> File c) else f
      | None \<Rightarrow> f)"

definition resize_effect :: "env \<Rightarrow> string \<Rightarrow> filesys \<Rightarrow> filesys option" where
  "resize_effect env disk f =
     (case f disk of
        Some (File c) \<Rightarrow> Some (f(disk \<mapsto> File (resized env c)))
      | _ \<Rightarrow> None)"

text \<open>\<open>dd if=/dev/zero of=path bs=1M count=64\<close>.\<close>

definition dd_effect :: "string \<Rightarrow> filesys \<Rightarrow> filesys option" where
  "dd_effect path f =
     (if parent_dir f path \<and> f path \<noteq> Some Dir
      then Some (f(path \<mapsto> File (ZeroFill (64 * 1048576)))) else None)"

definition file_at :: "filesys \<Rightarrow> string \<Rightarrow> contents option" where
  "file_at f path = (case f path of Some (File c) \<Rightarrow> Some c | _ \<Rightarrow> None)"

text \<open>
  \<open>hdiutil makehybrid -o vol dir\<close> packs a directory into a new file; it does not
  overwrite.
\<close>

definition iso_effect :: "string \<Rightarrow> string \<Rightarrow> filesys \<Rightarrow> filesys option" where
  "iso_effect vol dir f =
     (if f dir = Some Dir \<and> parent_dir f vol \<and> f vol = None
      then Some (f(vol \<mapsto> File (IsoVolume (file_at f (dir @ ''/user-data''))
                                            (file_at f (dir @ ''/meta-data'')))))
      else None)"

text \<open>\<open>rm -rf p1 p2 ...\<close> removes each path and everything below it, and never fails.\<close>

definition rm_rf :: "string list \<Rightarrow> filesys \<Rightarrow> filesys" where
  "rm_rf paths f = (\<lambda>q. if \<exists>p \<in> set paths. p \<noteq> [] \<and> (q = p \<or> under p q) then None else f q)"

definition rm_effect :: "string list \<Rightarrow> filesys \<Rightarrow> filesys option" where
  "rm_effect paths f = Some (rm_rf paths f)"

text \<open>A command that only answers, such as \<open>command -v\<close>.\<close>

definition no_effect :: "filesys \<Rightarrow> filesys option" where
  "no_effect f = Some f"

text \<open>
  A command line whose output is redirected with \<open>> path\<close>: the shell creates or empties
  the file before the command runs, and fails when it cannot. \<open>text\<close> is what the
  command has printed by the time \<open>system\<close> returns.
\<close>

definition redirect_effect :: "string \<Rightarrow> string \<Rightarrow> filesys \<Rightarrow> filesys option" where
  "redirect_effect path text f =
     (if parent_dir f path \<and> f path \<noteq> Some Dir
      then Some (f(path \<mapsto> File (Bytes text))) else None)"

definition copy_file :: "env \<Rightarrow> string \<Rightarrow> string \<Rightarrow> world \<Rightarrow> nat \<times> world" where
  "copy_file env src dest w =
     system_buf env (MAX_PATH * 3) (''cp '' @ dq @ src @ dq @ '' '' @ dq @ dest @ dq)
       (cp_effect src dest) w"

definition get_default_interface :: "nat \<Rightarrow> string" where
  "get_default_interface sz = strncpy sz ''en0''"

subsection \<open>Image cache\<close>

definition get_distro_url :: "string \<Rightarrow> string option" where
  "get_distro_url distro =
     (if distro = ''debian12'' then
        Some ''https://cloud.debian.org/images/cloud/bookworm/latest/debian-12-generic-arm64.qcow2''
      else if distro = ''ubuntu22'' then
        Some ''https://cloud-images.ubuntu.com/releases/22.04/release/ubuntu-22.04-server-cloudimg-arm64.img''
      else if distro = ''ubuntu24'' then
        Some ''https://cloud-images.ubuntu.com/releases/24.04/release/ubuntu-24.04-server-cloudimg-arm64.img''
      else None)"

text \<open>
  The cache path of a URL for a distro, as \<open>ensure_distro\<close> formats it into the caller's
  buffer of \<open>sz\<close> bytes.
\<close>

definition distro_dir_of :: "env \<Rightarrow> string \<Rightarrow> string" where
  "distro_dir_of env distro =
     snprintf MAX_PATH (snprintf MAX_PATH (home env @ ''/.v4m'') @ ''/distros/'' @ distro)"

definition distro_path_of :: "env \<Rightarrow> string \<Rightarrow> string \<Rightarrow> nat \<Rightarrow> string" where
  "distro_path_of env distro url sz =
     (let filename = (if CHR ''/'' \<in> set url then basename url else url)
      in snprintf sz (distro_dir_of env distro @ ''/'' @ filename))"

definition curl_line :: "string \<Rightarrow> string \<Rightarrow> string" where
  "curl_line distro_path url =
     ''curl -L -o '' @ dq @ distro_path @ dq @ '' '' @ dq @ url @ dq @ '' --progress-bar''"

text \<open>
  The result \<open>Some path\<close> is the return value 0 with \<open>path\<close> in the caller's buffer;
  \<open>None\<close> is the return value 1.
\<close>

definition ensure_distro :: "env \<Rightarrow> string \<Rightarrow> nat \<Rightarrow> world \<Rightarrow> string option \<times> world" where
  "ensure_distro env distro sz w =
     (case get_distro_url distro of
        None \<Rightarrow> (None, log_error ''Unknown distro'' w)
      | Some url \<Rightarrow>
          (let distro_dir = distro_dir_of env distro;
               distro_path = distro_path_of env distro url sz
           in if file_exists (fs w) distro_path then (Some distro_path, w)
              else
                (let w1 = log_info ''Downloading distro...'' w;
                     w2 = mkdir distro_dir w1;
                     (rc, w3) = system_buf env (MAX_PATH * 3) (curl_line distro_path url)
                                  (curl_effect env distro_path url) w2
                 in if rc \<noteq> 0
                    then (None, remove distro_path
                                  (log_error ''Failed to download distro''
                                     (w3\<lparr>fs := curl_partial env distro_path url (fs w3)\<rparr>)))
                    else (Some distro_path, log_success ''Downloaded distro'' w3))))"

subsection \<open>Guest configuration\<close>

definition hash_line :: "string \<Rightarrow> string" where
  "hash_line password = ''openssl passwd -6 '' @ dq @ password @ dq"

text \<open>
  The password goes into the command line between double quotes and as it is. Between
  double quotes the shell still reads the double quote, the dollar, the backquote and the
  backslash: a password with none of them is one argument of \<open>openssl passwd\<close>, which
  writes no file.
\<close>

definition shell_safe :: "string \<Rightarrow> bool" where
  "shell_safe s = list_all (\<lambda>c. c \<notin> set [CHR 0x22, CHR ''$'', CHR 0x60, CHR 0x5C]) s"

text \<open>
  \<open>Some hashed\<close> is the return value 0 with \<open>hashed\<close> in the buffer; \<open>None\<close> is 1.
  When \<open>popen\<close> has started the command line and the password is not
  \<open>shell_safe\<close>, the shell has run whatever the password made of the line:
  \<open>popen_fs\<close> says what that did to the file system.
\<close>

definition hash_password :: "env \<Rightarrow> string \<Rightarrow> nat \<Rightarrow> world \<Rightarrow> string option \<times> world" where
  "hash_password env password sz w =
     (let command = snprintf (MAX_PATH * 2) (hash_line password);
          w1 = w\<lparr>cmds := cmds w @ [command]\<rparr>
      in case cmd_out env command of
           None \<Rightarrow> (None, w1)
         | Some output \<Rightarrow>
             (let w2 = (if shell_safe password then w1
                        else w1\<lparr>fs := popen_fs env command (fs w1)\<rparr>)
              in case fgets sz output of
                   None \<Rightarrow> (None, w2)
                 | Some line \<Rightarrow> (Some (strip_newline line), w2)))"

text \<open>The \<open>user-data\<close> document, one element for each \<open>fprintf\<close>.\<close>

definition user_data :: "string \<Rightarrow> string \<Rightarrow> string \<Rightarrow> string list" where
  "user_data vm_name username hashed_pass =
     [''#cloud-config'' @ [nl, nl],
      ''# System settings'' @ [nl],
      ''hostname: '' @ vm_name @ [nl],
      ''fqdn: '' @ vm_name @ ''.local'' @ [nl],
      ''timezone: Europe/Rome'' @ [nl, nl],
      ''# Enable SSH password authentication'' @ [nl],
      ''ssh_pwauth: true'' @ [nl],
      ''disable_root: false'' @ [nl, nl],
      ''# Network configuration for DHCP'' @ [nl],
      ''network:'' @ [nl],
      ''  version: 2'' @ [nl],
      ''  ethernets:'' @ [nl],
      ''    enp0s1:'' @ [nl],
      ''      dhcp4: true'' @ [nl],
      ''      dhcp6: true'' @ [nl, nl],
      ''# Users'' @ [nl],
      ''users:'' @ [nl],
      ''  - name: '' @ username @ [nl],
      ''    sudo: ALL=(ALL) NOPASSWD:ALL'' @ [nl],
      ''    groups: [sudo, users]'' @ [nl],
      ''    shell: /bin/bash'' @ [nl],
      ''    lock_passwd: false'' @ [nl],
      ''    passwd: '' @ hashed_pass @ [nl],
      ''  - name: root'' @ [nl],
      ''    lock_passwd: false'' @ [nl],
      ''    passwd: '' @ hashed_pass @ [nl, nl],
      ''# Packages to install'' @ [nl],
      ''packages:'' @ [nl],
      ''  - openssh-server'' @ [nl],
      ''  - sudo'' @ [nl],
      ''  - curl'' @ [nl],
      ''  - wget'' @ [nl],
      ''  - vim'' @ [nl],
      ''  - net-tools'' @ [nl],
      ''  - htop'' @ [nl],
      ''  - avahi-daemon'' @ [nl],
      ''  - avahi-utils'' @ [nl, nl],
      ''# Commands to run after boot'' @ [nl],
      ''runcmd:'' @ [nl],
      ''  - systemctl enable ssh'' @ [nl],
      ''  - systemctl start ssh'' @ [nl],
      ''  - systemctl enable avahi-daemon'' @ [nl],
      ''  - systemctl start avahi-daemon'' @ [nl],
      ''  - echo '' @ dq @ ''VM is ready!'' @ dq @ '' > /tmp/vm-ready'' @ [nl, nl],
      ''# Final message'' @ [nl],
      ''final_message: '' @ dq @ ''VM '' @ vm_name @ '' is ready! SSH available on port 22.''
        @ dq @ [nl]]"

definition meta_data :: "string \<Rightarrow> nat \<Rightarrow> string list" where
  "meta_data vm_name t =
     [''instance-id: '' @ vm_name @ ''-'' @ dec t @ [nl],
      ''local-hostname: '' @ vm_name @ [nl]]"

definition create_cloud_init :: "env \<Rightarrow> string \<Rightarrow> string \<Rightarrow> string \<Rightarrow> string \<Rightarrow> world \<Rightarrow> nat \<times> world" where
  "create_cloud_init env vm_name username password vm_dir w =
     (let user_data_path = snprintf MAX_PATH (vm_dir @ ''/user-data'');
          meta_data_path = snprintf MAX_PATH (vm_dir @ ''/meta-data'')
      in case hash_password env password MAX_PATH w of
           (None, w1) \<Rightarrow> (1, log_error ''Failed to hash password'' w1)
         | (Some hashed_pass, w1) \<Rightarrow>
             if \<not> can_write env (fs w1) user_data_path
             then (1, log_error ''Failed to create user-data file'' w1)
             else
               (let w2 = write_file user_data_path
                           (concat (user_data vm_name username hashed_pass)) w1
                in if \<not> can_write env (fs w2) meta_data_path
                   then (1, log_error ''Failed to create meta-data file'' w2)
                   else
                     (let (t, w3) = time_null env w2
                      in (0, write_file meta_data_path (concat (meta_data vm_name t)) w3))))"

subsection \<open>Provisioning and launch\<close>

definition vm_dir_of :: "env \<Rightarrow> string \<Rightarrow> string" where
  "vm_dir_of env vm_name = snprintf MAX_PATH (home env @ ''/.v4m/vms/'' @ vm_name)"

text \<open>
  \<open>show_vm_info\<close> reads \<open>vm-info.json\<close> and prints the summary with \<open>printf\<close>: it
  changes nothing that the world records.
\<close>

definition show_vm_info :: "string \<Rightarrow> string \<Rightarrow> world \<Rightarrow> world" where
  "show_vm_info vm_name vm_dir w = w"

definition qemu_line :: "string \<Rightarrow> string \<Rightarrow> string \<Rightarrow> string \<Rightarrow> string \<Rightarrow> string \<Rightarrow> string \<Rightarrow> string \<Rightarrow> string" where
  "qemu_line efi_vars vm_disk cloud_init_iso bridge_interface vm_mac monitor_socket vm_dir log_file =
     ''nohup qemu-system-aarch64 '' @
     ''-machine virt '' @
     ''-cpu host '' @
     ''-accel hvf '' @
     ''-smp '' @ DEFAULT_CPUS @ '' '' @
     ''-m '' @ DEFAULT_MEMORY @ '' '' @
     ''-drive if=pflash,format=raw,file=/opt/homebrew/share/qemu/edk2-aarch64-code.fd,readonly=on '' @
     ''-drive if=pflash,format=raw,file='' @ dq @ efi_vars @ dq @ '' '' @
     ''-drive file='' @ dq @ vm_disk @ dq @ '',format=qcow2,if=virtio '' @
     ''-drive file='' @ dq @ cloud_init_iso @ dq @ '',media=cdrom,if=virtio,readonly=on '' @
     ''-netdev vmnet-bridged,id=net0,ifname='' @ bridge_interface @ '' '' @
     ''-device virtio-net,netdev=net0,mac='' @ vm_mac @ '' '' @
     ''-global PIIX4_PM.disable_s3=1 '' @
     ''-monitor unix:'' @ dq @ monitor_socket @ dq @ '',server,nowait '' @
     ''-serial unix:'' @ dq @ vm_dir @ ''/console.sock'' @ dq @ '',server,nowait '' @
     ''-device virtio-serial '' @
     ''-chardev socket,path='' @ dq @ vm_dir @ ''/qga.sock'' @ dq @ '',server=on,wait=off,id=qga0 '' @
     ''-device virtserialport,chardev=qga0,name=org.qemu.guest_agent.0 '' @
     ''-nographic > '' @ dq @ log_file @ dq @ '' 2>&1 &''"

text \<open>
  The command line of the hypervisor ends in \<open>&\<close>: it runs detached, and the log and
  the sockets it creates later are not part of the world that \<open>start_vm\<close> returns.
  The shell that runs \<open>echo $! > pid_file\<close> has started no background job, so it
  writes an empty line.
\<close>

definition start_vm :: "env \<Rightarrow> string \<Rightarrow> string \<Rightarrow> string \<Rightarrow> world \<Rightarrow> nat \<times> world" where
  "start_vm env vm_name vm_mac vm_dir w =
     (let vm_disk = snprintf MAX_PATH (vm_dir @ ''/disk.qcow2'');
          cloud_init_iso = snprintf MAX_PATH (vm_dir @ ''/cloud-init.iso'');
          efi_vars = snprintf MAX_PATH (vm_dir @ ''/efi-vars.fd'');
          log_file = snprintf MAX_PATH (vm_dir @ ''/console.log'');
          monitor_socket = snprintf MAX_PATH (vm_dir @ ''/monitor.sock'');
          pid_file = snprintf MAX_PATH (vm_dir @ ''/vm.pid'');
          bridge_interface = get_default_interface 16;
          w1 = log_info ''Starting VM...'' w;
          w2 = (if can_write env (fs w1) log_file then write_file log_file [] w1 else w1);
          w3 = remove monitor_socket w2;
          (result, w4) = system_bg env (MAX_PATH * 10)
                           (qemu_line efi_vars vm_disk cloud_init_iso bridge_interface vm_mac
                              monitor_socket vm_dir log_file) w3
      in if result \<noteq> 0 then (1, log_error ''Failed to start QEMU'' w4)
         else
           (let (rc, w5) = system_buf env MAX_PATH (''echo $! > '' @ dq @ pid_file @ dq)
                             (redirect_effect pid_file [nl]) w4;
                w6 = log_success ''VM started'' w5;
                w7 = log_info ''Waiting for VM to boot...'' w6
            in (0, show_vm_info vm_name vm_dir w7)))"

text \<open>
  \<open>create_vm\<close> is modelled in four parts, in the order of the source. The first runs from
  the existence check to the firmware-variable file (lines 385 to 427): \<open>Inl w\<close> is
  \<open>return 1\<close> in the world \<open>w\<close>, \<open>Inr (vm_mac, w)\<close> goes on.
\<close>

definition create_vm_disk :: "env \<Rightarrow> string \<Rightarrow> string \<Rightarrow> world \<Rightarrow> world + string \<times> world" where
  "create_vm_disk env vm_name distro w =
     (let vm_dir = vm_dir_of env vm_name;
          vm_disk = snprintf MAX_PATH (vm_dir @ ''/disk.qcow2'');
          w0 = log_info ''Creating VM...'' w
      in if dir_exists (fs w0) vm_dir then Inl (log_error ''VM already exists'' w0)
         else
           (let w1 = mkdir vm_dir w0
            in case ensure_distro env distro MAX_PATH w1 of
                 (None, w2) \<Rightarrow> Inl w2
               | (Some distro_path, w2) \<Rightarrow>
                   (let w3 = log_info ''Setting up VM disk...'' w2;
                        (rc, w4) = copy_file env distro_path vm_disk w3
                    in if rc \<noteq> 0 then Inl (log_error ''Failed to copy disk image'' w4)
                       else
                         (let (rc, w5) = system_buf env (MAX_PATH * 2)
                                           (''qemu-img resize '' @ dq @ vm_disk @ dq @ '' ''
                                              @ DEFAULT_DISK_SIZE @ '' >/dev/null'')
                                           (resize_effect env vm_disk) w4
                          in if rc \<noteq> 0 then Inl (log_error ''Failed to resize disk'' w5)
                             else
                               (let (vm_mac, w6) = generate_mac env 18 w5;
                                    efi_vars = snprintf MAX_PATH (vm_dir @ ''/efi-vars.fd'');
                                    (rc, w7) = system_buf env MAX_PATH
                                                 (''dd if=/dev/zero of='' @ dq @ efi_vars @ dq
                                                    @ '' bs=1M count=64 >/dev/null 2>&1'')
                                                 (dd_effect efi_vars) w6
                                in Inr (vm_mac, w7))))))"

text \<open>
  The second part is \<open>create_cloud_init\<close>. The third packs the two documents
  (lines 435 to 470): \<open>Inl w\<close> is \<open>return 1\<close>, \<open>Inr w\<close> goes on.
\<close>

definition temp_dir_of :: "env \<Rightarrow> string" where
  "temp_dir_of env = snprintf MAX_PATH (''/tmp/cloud-init-'' @ dec (pid env))"

definition rm_both_line :: "string \<Rightarrow> string \<Rightarrow> string" where
  "rm_both_line temp_dir vm_dir = ''rm -rf '' @ dq @ temp_dir @ dq @ '' '' @ dq @ vm_dir @ dq"

definition create_vm_iso :: "env \<Rightarrow> string \<Rightarrow> world \<Rightarrow> world + world" where
  "create_vm_iso env vm_dir w =
     (let cloud_init_iso = snprintf MAX_PATH (vm_dir @ ''/cloud-init.iso'');
          temp_dir = temp_dir_of env;
          w1 = mkdir temp_dir w;
          user_data_src = snprintf MAX_PATH (vm_dir @ ''/user-data'');
          user_data_dest = snprintf MAX_PATH (temp_dir @ ''/user-data'');
          meta_data_src = snprintf MAX_PATH (vm_dir @ ''/meta-data'');
          meta_data_dest = snprintf MAX_PATH (temp_dir @ ''/meta-data'');
          (rc1, w2) = copy_file env user_data_src user_data_dest w1;
          (rc2, w3) = copy_file env meta_data_src meta_data_dest w2;
          (rc, w4) = system_buf env (MAX_PATH * 2)
                       (''hdiutil makehybrid -iso -joliet -default-volume-name '' @ dq @ ''cidata''
                          @ dq @ '' -o '' @ dq @ cloud_init_iso @ dq @ '' '' @ dq @ temp_dir @ dq
                          @ '' >/dev/null 2>&1'')
                       (iso_effect cloud_init_iso temp_dir) w3
      in if rc \<noteq> 0
         then
           (let w5 = log_error ''Failed to create cloud-init ISO'' w4;
                (rc, w6) = system_buf env (MAX_PATH * 2) (rm_both_line temp_dir vm_dir)
                             (rm_effect [temp_dir, vm_dir]) w5
            in Inl w6)
         else
           (let (rc, w5) = system_buf env MAX_PATH (''rm -rf '' @ dq @ temp_dir @ dq)
                             (rm_effect [temp_dir]) w4
            in Inr w5))"

text \<open>The fourth part saves the record (lines 472 to 496).\<close>

definition vm_info :: "string \<Rightarrow> string \<Rightarrow> string \<Rightarrow> string \<Rightarrow> string \<Rightarrow> string \<Rightarrow> string list" where
  "vm_info vm_name distro username password vm_mac created =
     [''{'' @ [nl],
      ''    '' @ dq @ ''name'' @ dq @ '': '' @ dq @ vm_name @ dq @ '','' @ [nl],
      ''    '' @ dq @ ''distro'' @ dq @ '': '' @ dq @ distro @ dq @ '','' @ [nl],
      ''    '' @ dq @ ''username'' @ dq @ '': '' @ dq @ username @ dq @ '','' @ [nl],
      ''    '' @ dq @ ''password'' @ dq @ '': '' @ dq @ password @ dq @ '','' @ [nl],
      ''    '' @ dq @ ''mac'' @ dq @ '': '' @ dq @ vm_mac @ dq @ '','' @ [nl],
      ''    '' @ dq @ ''memory'' @ dq @ '': '' @ dq @ DEFAULT_MEMORY @ dq @ '','' @ [nl],
      ''    '' @ dq @ ''cpus'' @ dq @ '': '' @ dq @ DEFAULT_CPUS @ dq @ '','' @ [nl],
      ''    '' @ dq @ ''disk_size'' @ dq @ '': '' @ dq @ DEFAULT_DISK_SIZE @ dq @ '','' @ [nl],
      ''    '' @ dq @ ''created'' @ dq @ '': '' @ dq @ created @ dq @ [nl],
      ''}'' @ [nl]]"

definition create_vm_info :: "env \<Rightarrow> string \<Rightarrow> string \<Rightarrow> string \<Rightarrow> string \<Rightarrow> string \<Rightarrow> string \<Rightarrow> world \<Rightarrow> world" where
  "create_vm_info env vm_name distro username password vm_mac vm_dir w =
     (let vm_info_path = snprintf MAX_PATH (vm_dir @ ''/vm-info.json'')
      in if can_write env (fs w) vm_info_path
         then
           (let (now, w1) = time_null env w;
                created = snprintf 64 (utc_stamp env now)
            in write_file vm_info_path
                 (concat (vm_info vm_name distro username password vm_mac created)) w1)
         else w)"

definition create_vm :: "env \<Rightarrow> string \<Rightarrow> string \<Rightarrow> string \<Rightarrow> string \<Rightarrow> world \<Rightarrow> nat \<times> world" where
  "create_vm env vm_name distro username password w =
     (let vm_dir = vm_dir_of env vm_name
      in case create_vm_disk env vm_name distro w of
           Inl w1 \<Rightarrow> (1, w1)
         | Inr (vm_mac, w1) \<Rightarrow>
             (let w2 = log_info ''Configuring cloud-init...'' w1;
                  (rc, w3) = create_cloud_init env vm_name username password vm_dir w2
              in if rc \<noteq> 0 then (1, w3)
                 else
                   (case create_vm_iso env vm_dir w3 of
                      Inl w4 \<Rightarrow> (1, w4)
                    | Inr w4 \<Rightarrow>
                        (let w5 = create_vm_info env vm_name distro username password vm_mac vm_dir w4;
                             w6 = log_success ''VM created successfully'' w5
                         in start_vm env vm_name vm_mac vm_dir w6))))"

subsection \<open>Entry point\<close>

record opts =
  opt_name :: string
  opt_distro :: string
  opt_user :: string
  opt_pass :: string

datatype parsed = Parsed opts | Help | Unknown

text \<open>
  The loop over \<open>argv[1..]\<close>; each buffer has \<open>MAX_NAME\<close> bytes and \<open>strncpy\<close> fills
  at most \<open>MAX_NAME - 1\<close> of them.
\<close>

fun parse_args :: "string list \<Rightarrow> opts \<Rightarrow> parsed" where
  "parse_args [] cfg = Parsed cfg"
| "parse_args (a # rest) cfg =
     (if a = ''--name'' \<and> rest \<noteq> [] then
        parse_args (tl rest) (cfg\<lparr>opt_name := strncpy (MAX_NAME - 1) (hd rest)\<rparr>)
      else if a = ''--distro'' \<and> rest \<noteq> [] then
        parse_args (tl rest) (cfg\<lparr>opt_distro := strncpy (MAX_NAME - 1) (hd rest)\<rparr>)
      else if a = ''--user'' \<and> rest \<noteq> [] then
        parse_args (tl rest) (cfg\<lparr>opt_user := strncpy (MAX_NAME - 1) (hd rest)\<rparr>)
      else if a = ''--pass'' \<and> rest \<noteq> [] then
        parse_args (tl rest) (cfg\<lparr>opt_pass := strncpy (MAX_NAME - 1) (hd rest)\<rparr>)
      else if a = ''--help'' \<or> a = ''-h'' then Help
      else Unknown)"

definition initial_opts :: opts where
  "initial_opts = \<lparr>opt_name = [], opt_distro = DEFAULT_DISTRO, opt_user = DEFAULT_USER, opt_pass = []\<rparr>"

definition check_root :: "env \<Rightarrow> world \<Rightarrow> nat \<times> world" where
  "check_root env w =
     (if euid env \<noteq> 0
      then (1, log_info ''Please run with sudo''
                 (log_error ''This script requires sudo privileges for vmnet-bridged networking'' w))
      else (0, w))"

definition init_dirs :: "env \<Rightarrow> world \<Rightarrow> world" where
  "init_dirs env w =
     (let v4m_dir = snprintf MAX_PATH (home env @ ''/.v4m'');
          distros_dir = snprintf MAX_PATH (v4m_dir @ ''/distros'');
          vms_dir = snprintf MAX_PATH (v4m_dir @ ''/vms'')
      in mkdir vms_dir (mkdir distros_dir (mkdir v4m_dir w)))"

text \<open>
  The name and the password that \<open>main\<close> hands to the pipeline: an empty buffer is
  filled by the generator (lines 116 to 123).
\<close>

definition fill_defaults :: "env \<Rightarrow> opts \<Rightarrow> world \<Rightarrow> (string \<times> string) \<times> world" where
  "fill_defaults env cfg w =
     (let (vm_name, w1) = (if length (opt_name cfg) = 0 then generate_vm_name env MAX_NAME w
                           else (opt_name cfg, w));
          (password, w2) = (if length (opt_pass cfg) = 0
                            then generate_password env (opt_pass cfg) MAX_NAME w1
                            else (opt_pass cfg, w1))
      in ((vm_name, password), w2))"

definition qemu_check_line :: string where
  "qemu_check_line = ''command -v qemu-system-aarch64 >/dev/null 2>&1''"

text \<open>\<open>args\<close> is \<open>argv\<close> without the program's name; the result is the exit status.\<close>

definition main :: "env \<Rightarrow> string list \<Rightarrow> world \<Rightarrow> nat \<times> world" where
  "main env args w =
     (case parse_args args initial_opts of
        Help \<Rightarrow> (0, w)
      | Unknown \<Rightarrow> (1, log_error ''Unknown option'' w)
      | Parsed cfg \<Rightarrow>
          (let ((vm_name, password), w2) = fill_defaults env cfg w;
               (rc, w3) = check_root env w2
           in if rc \<noteq> 0 then (1, w3)
              else
                (let w4 = init_dirs env w3;
                     (rc, w5) = system env qemu_check_line no_effect w4
                 in if rc \<noteq> 0
                    then (1, log_error ''  brew install qemu''
                               (log_error ''QEMU not found. Please install QEMU:'' w5))
                    else
                      (let (rc, w6) = create_vm env vm_name (opt_distro cfg) (opt_user cfg) password w5
                       in if rc \<noteq> 0 then (1, w6) else (0, w6)))))"

subsection \<open>Concrete inputs\<close>

text \<open>
  A machine on which everything works: the user is root, every command succeeds, the
  generator counts upwards from its seed, and \<open>popen\<close> fails (so no command prints
  anything). The world has a home directory and \<open>/tmp\<close>, and nothing else.
\<close>

definition env0 :: env where
  "env0 = \<lparr>home = ''/h'', euid = 0, pid = 7, time_at = (\<lambda>k. 0), rand_val = (\<lambda>s. s),
            rand_next = Suc, cmd_ok = (\<lambda>c. True), cmd_out = (\<lambda>c. None),
            open_ok = (\<lambda>p. True), payload = (\<lambda>u. Bytes ''img''), resized = (\<lambda>c. c),
            utc_stamp = (\<lambda>t. ''1970-01-01T00:00:00Z''), fork_ok = (\<lambda>c. True),
            partial = (\<lambda>u. None), popen_fs = (\<lambda>c f. f)\<rparr>"

definition world0 :: world where
  "world0 = \<lparr>fs = [''/h'' \<mapsto> Dir, ''/tmp'' \<mapsto> Dir], out = [], cmds = [], rng = 0, ticks = 0\<rparr>"

text \<open>The same machine with a password hasher that prints one line.\<close>

definition env1 :: env where
  "env1 = env0\<lparr>cmd_out := (\<lambda>c. if take 14 c = ''openssl passwd''
                                   then Some (''$6$salt$hash'' @ [nl]) else None)\<rparr>"

text \<open>The same machine with no network and no working utility: every command fails.\<close>

definition env_off :: env where
  "env_off = env0\<lparr>cmd_ok := (\<lambda>c. False)\<rparr>"

text \<open>The same, and a transfer leaves the first bytes of the file behind.\<close>

definition env_cut :: env where
  "env_cut = env_off\<lparr>partial := (\<lambda>u. Some (Bytes ''im''))\<rparr>"

text \<open>
  The world after \<open>init_dirs\<close>; that world with the directory of a machine
  \<open>demo1\<close>; and that world with the Debian image in the cache instead.
\<close>

definition world1 :: world where
  "world1 = \<lparr>fs = [''/h'' \<mapsto> Dir, ''/tmp'' \<mapsto> Dir, ''/h/.v4m'' \<mapsto> Dir,
                   ''/h/.v4m/distros'' \<mapsto> Dir, ''/h/.v4m/vms'' \<mapsto> Dir],
             out = [], cmds = [], rng = 0, ticks = 0\<rparr>"

definition world_demo1 :: world where
  "world_demo1 = world1\<lparr>fs := (fs world1)(''/h/.v4m/vms/demo1'' \<mapsto> Dir)\<rparr>"

definition world_cached :: world where
  "world_cached = world1\<lparr>fs := (fs world1)
       (''/h/.v4m/distros/debian12'' \<mapsto> Dir,
        ''/h/.v4m/distros/debian12/debian-12-generic-arm64.qcow2'' \<mapsto> File (Bytes ''img''))\<rparr>"

text \<open>The catalog entry of \<open>debian12\<close> and its place in the cache below \<open>/h\<close>.\<close>

definition debian_url :: string where
  "debian_url = ''https://cloud.debian.org/images/cloud/bookworm/latest/debian-12-generic-arm64.qcow2''"

definition debian_path :: string where
  "debian_path = ''/h/.v4m/distros/debian12/debian-12-generic-arm64.qcow2''"




text \<open>
  Environments in which one thing fails: the command \<open>dd\<close>; the command
  \<open>hdiutil\<close>; the start of a shell for the launch command (\<open>fork\<close> fails at
  that moment); \<open>fopen\<close> of \<open>vm-info.json\<close>.
\<close>

definition env_dd :: env where
  "env_dd = env1\<lparr>cmd_ok := (\<lambda>c. take 2 c \<noteq> ''dd'')\<rparr>"

definition env_iso :: env where
  "env_iso = env1\<lparr>cmd_ok := (\<lambda>c. take 7 c \<noteq> ''hdiutil'')\<rparr>"

definition env_qemu :: env where
  "env_qemu = env1\<lparr>fork_ok := (\<lambda>c. take 5 c \<noteq> ''nohup'')\<rparr>"

definition env_noinfo :: env where
  "env_noinfo = env1\<lparr>open_ok := (\<lambda>p. basename p \<noteq> ''vm-info.json'')\<rparr>"

text \<open>
  A password that closes the quotes of the hashing command, and an environment in which
  the command line it makes, \<open>openssl passwd -6 "" >/dev/null; echo ""\<close>, prints what a
  shell prints for it: an empty line.
\<close>

definition inj_password :: string where
  "inj_password = dq @ '' >/dev/null; echo '' @ dq"

definition env_inj :: env where
  "env_inj = env0\<lparr>cmd_out := (\<lambda>c. if c = ''openssl passwd -6 '' @ dq @ dq @ '' >/dev/null; echo ''
                                              @ dq @ dq
                                     then Some [nl] else None)\<rparr>"

text \<open>
  The run for the machine \<open>demo1\<close> from \<open>world_cached\<close>: its address, its
  directory, and the worlds after disk provisioning, after the guest configuration and
  after packaging (or after packaging has failed), in an environment \<open>e\<close>.
\<close>

definition mac0 :: string where
  "mac0 = ''52:54:00:00:01:02''"

definition demo1_dir :: string where
  "demo1_dir = ''/h/.v4m/vms/demo1''"

definition w_disk :: "env \<Rightarrow> world" where
  "w_disk e = snd (projr (create_vm_disk e ''demo1'' ''debian12'' world_cached))"

definition w_cloud :: "env \<Rightarrow> world" where
  "w_cloud e = snd (create_cloud_init e ''demo1'' ''alice'' ''secret'' demo1_dir
                      (log_info ''Configuring cloud-init...'' (w_disk e)))"

definition w_iso :: "env \<Rightarrow> world" where
  "w_iso e = projr (create_vm_iso e demo1_dir (w_cloud e))"

definition w_iso_failed :: "env \<Rightarrow> world" where
  "w_iso_failed e = projl (create_vm_iso e demo1_dir (w_cloud e))"

text \<open>The command line that allocates the firmware-variable file of \<open>demo1\<close>.\<close>

definition dd_line0 :: string where
  "dd_line0 = ''dd if=/dev/zero of='' @ dq @ ''/h/.v4m/vms/demo1/efi-vars.fd'' @ dq
                @ '' bs=1M count=64 >/dev/null 2>&1''"

text \<open>
  The format that the specification states for a generated name: adjective, noun and a
  two-digit number.
\<close>

definition two_digit_name :: "string \<Rightarrow> bool" where
  "two_digit_name s =
     (\<exists>a \<in> set adjectives. \<exists>n \<in> set nouns.
        \<exists>d1 \<in> set ''0123456789''. \<exists>d2 \<in> set ''0123456789''.
          s = a @ ''-'' @ n @ ''-'' @ [d1, d2])"

section \<open>Properties\<close>

subsection \<open>Formatting\<close>

lemma snprintf_fits: "length s < sz \<Longrightarrow> snprintf sz s = s"
  by (simp add: snprintf_def)

lemma dec_small:
  "k < 100 \<Longrightarrow> dec k = (if k < 10 then [digit k] else [digit (k div 10), digit (k mod 10)])"
proof -
  assume "k < 100"
  then have "k div 10 < 10" by simp
  then show ?thesis by (simp add: dec.simps [of k] dec.simps [of "k div 10"])
qed

lemma digit_in: "n < 10 \<Longrightarrow> digit n \<in> set ''0123456789''"
  unfolding digit_def by (rule nth_mem) simp

lemma dec_length: "k < 100 \<Longrightarrow> length (dec k) = (if k < 10 then 1 else 2)"
  by (simp add: dec_small)

lemma dec_digits: "k < 100 \<Longrightarrow> set (dec k) \<subseteq> set ''0123456789''"
proof -
  assume k: "k < 100"
  then have "k div 10 < 10" by simp
  then have a: "digit (k div 10) \<in> set ''0123456789''" by (rule digit_in)
  have b: "digit (k mod 10) \<in> set ''0123456789''" by (rule digit_in) simp
  show ?thesis
  proof (cases "k < 10")
    case True
    then have "digit k \<in> set ''0123456789''" by (rule digit_in)
    with True k show ?thesis by (simp only: dec_small if_True set_simps) blast
  next
    case False
    with k a b show ?thesis by (simp only: dec_small if_False set_simps) blast
  qed
qed

subsection \<open>Generated names\<close>

lemma adjective_length: "a \<in> set adjectives \<Longrightarrow> length a \<le> 6"
  by (auto simp: adjectives_def)

lemma noun_length: "n \<in> set nouns \<Longrightarrow> length n \<le> 8"
  by (auto simp: nouns_def)

lemma adjective_nth: "adjectives ! (r mod 10) \<in> set adjectives"
  by (rule nth_mem) (simp add: adjectives_def)

lemma noun_nth: "nouns ! (r mod 10) \<in> set nouns"
  by (rule nth_mem) (simp add: nouns_def)

text \<open>The name never reaches the end of its buffer, so it is the formatted text.\<close>

lemma generate_vm_name_eq:
  "fst (generate_vm_name env MAX_NAME w) =
     adjectives ! (rand_val env (time_at env (ticks w) mod 4294967296) mod 10) @ ''-'' @
     nouns ! (rand_val env (rand_next env (time_at env (ticks w) mod 4294967296)) mod 10) @ ''-'' @
     dec (rand_val env (rand_next env (rand_next env (time_at env (ticks w) mod 4294967296))) mod 100)"
proof -
  let ?a = "adjectives ! (rand_val env (time_at env (ticks w) mod 4294967296) mod 10)"
  let ?n = "nouns ! (rand_val env (rand_next env (time_at env (ticks w) mod 4294967296)) mod 10)"
  let ?k = "rand_val env (rand_next env (rand_next env (time_at env (ticks w) mod 4294967296))) mod 100"
  have "length ?a \<le> 6" by (rule adjective_length [OF adjective_nth])
  moreover have "length ?n \<le> 8" by (rule noun_length [OF noun_nth])
  moreover have "length (dec ?k) \<le> 2" by (simp add: dec_length)
  ultimately have "length (?a @ ''-'' @ ?n @ ''-'' @ dec ?k) < MAX_NAME"
    by (simp add: MAX_NAME_def)
  then show ?thesis
    by (simp add: generate_vm_name_def time_null_def srand_def rand_def Let_def snprintf_fits)
qed

lemma generate_vm_name_env0: "fst (generate_vm_name env0 MAX_NAME world0) = ''fast-box-2''"
  by (simp add: generate_vm_name_eq env0_def world0_def adjectives_def nouns_def dec_small digit_def)

text \<open>
  C7, as amended. Every name that \<open>generate_vm_name\<close> produces is an adjective of the
  fixed ten-item list, a noun of the fixed ten-item list and a number from 0 to 99, joined
  with hyphens; the number is printed with \<open>%d\<close>, so it has one digit when it is below
  10 and two digits otherwise.
\<close>

theorem generate_vm_name_format:
  "\<exists>a n k. a \<in> set adjectives \<and> n \<in> set nouns \<and> k < 100 \<and>
     fst (generate_vm_name env MAX_NAME w) = a @ ''-'' @ n @ ''-'' @ dec k \<and>
     length (dec k) = (if k < 10 then 1 else 2) \<and> set (dec k) \<subseteq> set ''0123456789''"
proof -
  let ?a = "adjectives ! (rand_val env (time_at env (ticks w) mod 4294967296) mod 10)"
  let ?n = "nouns ! (rand_val env (rand_next env (time_at env (ticks w) mod 4294967296)) mod 10)"
  let ?k = "rand_val env (rand_next env (rand_next env (time_at env (ticks w) mod 4294967296))) mod 100"
  have k: "?k < 100" by simp
  have "?a \<in> set adjectives" by (rule adjective_nth)
  moreover have "?n \<in> set nouns" by (rule noun_nth)
  moreover have "fst (generate_vm_name env MAX_NAME w) = ?a @ ''-'' @ ?n @ ''-'' @ dec ?k"
    by (rule generate_vm_name_eq)
  moreover have "length (dec ?k) = (if ?k < 10 then 1 else 2)" by (rule dec_length [OF k])
  moreover have "set (dec ?k) \<subseteq> set ''0123456789''" by (rule dec_digits [OF k])
  ultimately show ?thesis using k by blast
qed

text \<open>
  C7 as the specification states it, with a two-digit number, fails: when the three
  numbers drawn are 0, 1 and 2 the name is \<open>fast-box-2\<close>, whose last but one character
  is a hyphen.
\<close>

theorem generate_vm_name_two_digit_counterexample:
  "fst (generate_vm_name env0 MAX_NAME world0) = ''fast-box-2''
   \<and> \<not> two_digit_name (fst (generate_vm_name env0 MAX_NAME world0))"
proof -
  have "\<not> two_digit_name ''fast-box-2''"
  proof
    assume "two_digit_name ''fast-box-2''"
    then obtain a n d1 d2 where d: "d1 \<in> set ''0123456789''"
      and e: "''fast-box-2'' = a @ ''-'' @ n @ ''-'' @ [d1, d2]"
      unfolding two_digit_name_def by (elim bexE)
    from e have "rev ''fast-box-2'' = rev (a @ ''-'' @ n @ ''-'' @ [d1, d2])"
      by (rule arg_cong)
    then have "rev ''fast-box-2'' = d2 # d1 # rev (a @ ''-'' @ n @ ''-'')"
      by (simp only: rev_append rev.simps append.simps append_assoc)
    then have "d1 = CHR ''-''" by simp
    with d show False by simp
  qed
  then show ?thesis by (simp only: generate_vm_name_env0 simp_thms)
qed

subsection \<open>Generated passwords\<close>

lemma rand_chars_rng:
  "rand_val e1 = rand_val e2 \<Longrightarrow> rand_next e1 = rand_next e2 \<Longrightarrow> rng w1 = rng w2 \<Longrightarrow>
   fst (rand_chars e1 n w1) = fst (rand_chars e2 n w2)"
proof (induction n arbitrary: w1 w2)
  case 0
  then show ?case by simp
next
  case (Suc n)
  have "rng (snd (rand e1 w1)) = rng (snd (rand e2 w2))"
    using Suc.prems by (simp add: rand_def)
  from Suc.IH [OF Suc.prems(1) Suc.prems(2) this] Suc.prems
  show ?case by (simp add: rand_def case_prod_beta Let_def)
qed

lemma rand_chars_length: "length (fst (rand_chars env n w)) = n"
  by (induction n arbitrary: w) (simp_all add: case_prod_beta Let_def)

lemma chars_nth: "chars ! (r mod 62) \<in> set chars"
  by (rule nth_mem) (simp add: chars_def)

lemma rand_chars_set: "set (fst (rand_chars env n w)) \<subseteq> set chars"
proof (induction n arbitrary: w)
  case 0
  then show ?case by simp
next
  case (Suc n)
  from Suc [of "snd (rand env w)"] chars_nth [of "fst (rand env w)"]
  show ?case by (simp add: case_prod_beta Let_def)
qed

lemma generate_password_fallback:
  "cmd_out env password_cmd = None \<Longrightarrow>
   fst (generate_password env p sz w) =
     fst (rand_chars env 12 (srand (time_at env (ticks w))
            (w\<lparr>cmds := cmds w @ [password_cmd], ticks := Suc (ticks w)\<rparr>)))"
  by (simp add: generate_password_def time_null_def case_prod_beta Let_def)

text \<open>
  C10. The fallback branch of \<open>generate_password\<close>, taken when \<open>popen\<close> fails,
  depends on the clock alone: two invocations on the same C library whose calls of
  \<open>time(NULL)\<close> return the same value produce the same password, whatever the state of
  the generator before, the buffer's content and the rest of the world; the password has
  12 characters, each a letter or a digit.
\<close>

theorem generate_password_fallback_deterministic:
  assumes "cmd_out ea password_cmd = None" and "cmd_out eb password_cmd = None"
    and "rand_val ea = rand_val eb" and "rand_next ea = rand_next eb"
    and "time_at ea (ticks w1) = time_at eb (ticks w2)"
  shows "fst (generate_password ea p1 MAX_NAME w1) = fst (generate_password eb p2 MAX_NAME w2)
       \<and> length (fst (generate_password ea p1 MAX_NAME w1)) = 12
       \<and> set (fst (generate_password ea p1 MAX_NAME w1)) \<subseteq> set chars"
proof -
  let ?v1 = "srand (time_at ea (ticks w1)) (w1\<lparr>cmds := cmds w1 @ [password_cmd], ticks := Suc (ticks w1)\<rparr>)"
  let ?v2 = "srand (time_at eb (ticks w2)) (w2\<lparr>cmds := cmds w2 @ [password_cmd], ticks := Suc (ticks w2)\<rparr>)"
  have "rng ?v1 = rng ?v2" using assms(5) by (simp add: srand_def)
  from rand_chars_rng [OF assms(3) assms(4) this]
  have "fst (rand_chars ea 12 ?v1) = fst (rand_chars eb 12 ?v2)" .
  then show ?thesis
    by (simp only: generate_password_fallback [OF assms(1)] generate_password_fallback [OF assms(2)]
          rand_chars_length rand_chars_set simp_thms)
qed

text \<open>Witness: the clock reads 0 in both invocations.\<close>

theorem generate_password_fallback_deterministic_witness:
  "cmd_out env0 password_cmd = None
   \<and> time_at env0 (ticks world0) = time_at env0 (ticks (world0\<lparr>rng := 99, ticks := 3\<rparr>))
   \<and> fst (generate_password env0 [] MAX_NAME world0)
       = fst (generate_password env0 ''old'' MAX_NAME (world0\<lparr>rng := 99, ticks := 3\<rparr>))
   \<and> length (fst (generate_password env0 [] MAX_NAME world0)) = 12"
proof -
  have a: "cmd_out env0 password_cmd = None" by (simp add: env0_def)
  have b: "time_at env0 (ticks world0) = time_at env0 (ticks (world0\<lparr>rng := 99, ticks := 3\<rparr>))"
    by (simp add: env0_def)
  from generate_password_fallback_deterministic [OF a a refl refl b, of "[]" "''old''"] a b
  show ?thesis by blast
qed

subsection \<open>Name collision and unknown distro\<close>

text \<open>
  C5. When the directory of the VM already exists, \<open>create_vm\<close> returns 1 after
  printing the error "VM already exists"; it runs no command and the file system is the
  one it started in, so nothing inside the existing directory is written, created or deleted.
\<close>

theorem create_vm_name_collision:
  assumes "dir_exists (fs w) (vm_dir_of env vm_name)"
  shows "create_vm env vm_name distro username password w =
           (1, w\<lparr>out := out w @ [(Info, ''Creating VM...''), (Error, ''VM already exists'')]\<rparr>)"
  using assms by (simp add: create_vm_def create_vm_disk_def log_info_def log_error_def)

lemma get_distro_url_unknown:
  "distro \<notin> {''debian12'', ''ubuntu22'', ''ubuntu24''} \<Longrightarrow> get_distro_url distro = None"
  by (simp add: get_distro_url_def)

text \<open>
  C1, as amended. For every distro identifier outside the catalog, \<open>ensure_distro\<close>
  returns 1 after printing the error "Unknown distro", without touching the file system
  and without running a command. \<open>create_vm\<close> calls it after \<open>mkdir(vm_dir)\<close>: when
  the VM's directory does not exist yet, the pipeline returns 1 with "Unknown distro" and
  its only change to the file system is that \<open>mkdir\<close>; when the directory exists, it
  returns 1 with "VM already exists" before the distro is looked up.
\<close>

theorem unknown_distro_fails:
  assumes "distro \<notin> {''debian12'', ''ubuntu22'', ''ubuntu24''}"
  shows "ensure_distro env distro sz w = (None, w\<lparr>out := out w @ [(Error, ''Unknown distro'')]\<rparr>)
       \<and> create_vm env vm_name distro username password w =
           (1, if dir_exists (fs w) (vm_dir_of env vm_name)
               then w\<lparr>out := out w @ [(Info, ''Creating VM...''), (Error, ''VM already exists'')]\<rparr>
               else (mkdir (vm_dir_of env vm_name) w)
                      \<lparr>out := out w @ [(Info, ''Creating VM...''), (Error, ''Unknown distro'')]\<rparr>)"
  using get_distro_url_unknown [OF assms]
  by (simp add: create_vm_def create_vm_disk_def ensure_distro_def log_info_def log_error_def mkdir_def Let_def)

subsection \<open>Image cache\<close>

lemma system_buf_ok:
  "system_buf env sz full effect w = (0, w') \<Longrightarrow>
   \<exists>f. effect (fs w) = Some f \<and> snprintf sz full = full
       \<and> w' = w\<lparr>cmds := cmds w @ [full], fs := f\<rparr>"
  by (auto simp: system_buf_def system_def Let_def split: if_splits option.splits)

lemma curl_effect_file:
  "curl_effect env path url f = Some f' \<Longrightarrow> file_exists f' path"
  by (auto simp: curl_effect_def file_exists_def split: if_splits)

lemma ensure_distro_hit:
  "get_distro_url distro = Some url \<Longrightarrow> file_exists (fs w) (distro_path_of env distro url sz) \<Longrightarrow>
   ensure_distro env distro sz w = (Some (distro_path_of env distro url sz), w)"
  by (simp add: ensure_distro_def Let_def)

lemma ensure_distro_Some:
  assumes "ensure_distro env distro sz w = (Some p, w1)" and "get_distro_url distro = Some url"
  shows "p = distro_path_of env distro url sz \<and> file_exists (fs w1) p
       \<and> (cmds w1 = cmds w \<or> cmds w1 = cmds w @ [curl_line p url])"
proof (cases "file_exists (fs w) (distro_path_of env distro url sz)")
  case True
  from ensure_distro_hit [OF assms(2) True] assms(1) True show ?thesis by simp
next
  case False
  let ?p = "distro_path_of env distro url sz"
  let ?w2 = "mkdir (distro_dir_of env distro) (log_info ''Downloading distro...'' w)"
  obtain rc w3 where r: "system_buf env (MAX_PATH * 3) (curl_line ?p url) (curl_effect env ?p url) ?w2 = (rc, w3)"
    by (cases "system_buf env (MAX_PATH * 3) (curl_line ?p url) (curl_effect env ?p url) ?w2")
  from assms False r have rc: "rc = 0" and p: "p = ?p" and w1: "w1 = log_success ''Downloaded distro'' w3"
    by (auto simp: ensure_distro_def Let_def split: if_splits)
  from system_buf_ok [OF r [unfolded rc]] obtain f where
    f: "curl_effect env ?p url (fs ?w2) = Some f" and w3: "w3 = ?w2\<lparr>cmds := cmds ?w2 @ [curl_line ?p url], fs := f\<rparr>"
    by blast
  have "cmds ?w2 = cmds w" by (simp add: mkdir_def log_info_def)
  with curl_effect_file [OF f] p w1 w3 show ?thesis by (simp add: log_success_def)
qed

lemma distro_path_of_home: "home env2 = home env \<Longrightarrow> distro_path_of env2 distro url sz = distro_path_of env distro url sz"
  by (simp add: distro_path_of_def distro_dir_of_def)

lemma catalog_cases:
  "get_distro_url distro = Some url \<Longrightarrow>
     (distro = ''debian12'' \<and> url = ''https://cloud.debian.org/images/cloud/bookworm/latest/debian-12-generic-arm64.qcow2'')
   \<or> (distro = ''ubuntu22'' \<and> url = ''https://cloud-images.ubuntu.com/releases/22.04/release/ubuntu-22.04-server-cloudimg-arm64.img'')
   \<or> (distro = ''ubuntu24'' \<and> url = ''https://cloud-images.ubuntu.com/releases/24.04/release/ubuntu-24.04-server-cloudimg-arm64.img'')"
  unfolding get_distro_url_def by (simp split: if_splits)

lemma basename_debian12:
  "basename ''https://cloud.debian.org/images/cloud/bookworm/latest/debian-12-generic-arm64.qcow2''
     = ''debian-12-generic-arm64.qcow2''"
  by (simp add: basename_def)

lemma basename_ubuntu22:
  "basename ''https://cloud-images.ubuntu.com/releases/22.04/release/ubuntu-22.04-server-cloudimg-arm64.img''
     = ''ubuntu-22.04-server-cloudimg-arm64.img''"
  by (simp add: basename_def)

lemma basename_ubuntu24:
  "basename ''https://cloud-images.ubuntu.com/releases/24.04/release/ubuntu-24.04-server-cloudimg-arm64.img''
     = ''ubuntu-24.04-server-cloudimg-arm64.img''"
  by (simp add: basename_def)

lemma catalog_sizes:
  assumes "get_distro_url distro = Some url"
  shows "CHR ''/'' \<in> set url \<and> length (basename url) \<le> 60 \<and> length distro \<le> 8"
  using catalog_cases [OF assms]
proof (elim disjE conjE)
  assume 1: "distro = ''debian12''"
    "url = ''https://cloud.debian.org/images/cloud/bookworm/latest/debian-12-generic-arm64.qcow2''"
  show ?thesis unfolding 1 basename_debian12 by simp
next
  assume 2: "distro = ''ubuntu22''"
    "url = ''https://cloud-images.ubuntu.com/releases/22.04/release/ubuntu-22.04-server-cloudimg-arm64.img''"
  show ?thesis unfolding 2 basename_ubuntu22 by simp
next
  assume 3: "distro = ''ubuntu24''"
    "url = ''https://cloud-images.ubuntu.com/releases/24.04/release/ubuntu-24.04-server-cloudimg-arm64.img''"
  show ?thesis unfolding 3 basename_ubuntu24 by simp
qed

lemma distro_path_of_shape:
  assumes "get_distro_url distro = Some url" and "length (home env) \<le> 900"
  shows "distro_path_of env distro url MAX_PATH = home env @ ''/.v4m/distros/'' @ distro @ ''/'' @ basename url"
proof -
  from catalog_sizes [OF assms(1)] have s: "CHR ''/'' \<in> set url" and b: "length (basename url) \<le> 60"
    and d: "length distro \<le> 8" by blast+
  from assms(2) have 1: "snprintf MAX_PATH (home env @ ''/.v4m'') = home env @ ''/.v4m''"
    by (simp add: snprintf_fits MAX_PATH_def)
  from assms(2) d have 2: "distro_dir_of env distro = home env @ ''/.v4m/distros/'' @ distro"
    unfolding distro_dir_of_def 1 by (simp add: snprintf_fits MAX_PATH_def)
  from assms(2) d b show ?thesis
    unfolding distro_path_of_def 2 using s by (simp add: snprintf_fits MAX_PATH_def)
qed

lemma system_buf_cmds:
  "cmds (snd (system_buf env sz full effect w)) = cmds w @ [snprintf sz full]"
  by (simp add: system_buf_def system_def Let_def split: option.splits)

lemma remove_cmds: "cmds (remove path w) = cmds w"
  by (simp add: remove_def split: option.splits node.splits)

lemma remove_not_file: "\<not> file_exists (fs (remove path w)) path"
  by (simp add: remove_def file_exists_def split: option.splits node.splits)

text \<open>A call that finds no cached file runs the download, whatever comes of it.\<close>

lemma ensure_distro_miss:
  assumes "get_distro_url distro = Some url"
    and "\<not> file_exists (fs w) (distro_path_of env distro url sz)"
  shows "cmds (snd (ensure_distro env distro sz w))
           = cmds w @ [snprintf (MAX_PATH * 3) (curl_line (distro_path_of env distro url sz) url)]"
proof -
  let ?p = "distro_path_of env distro url sz"
  let ?w2 = "mkdir (distro_dir_of env distro) (log_info ''Downloading distro...'' w)"
  let ?r = "system_buf env (MAX_PATH * 3) (curl_line ?p url) (curl_effect env ?p url) ?w2"
  have c: "cmds (snd ?r) = cmds w @ [snprintf (MAX_PATH * 3) (curl_line ?p url)]"
    unfolding system_buf_cmds by (simp add: mkdir_def log_info_def)
  show ?thesis using assms c
    by (simp add: ensure_distro_def Let_def case_prod_beta remove_cmds log_error_def log_success_def)
qed

text \<open>A call that fails has run the download and leaves no file at the cache path.\<close>

lemma ensure_distro_None:
  assumes "ensure_distro env distro sz w = (None, w2)" and "get_distro_url distro = Some url"
  shows "\<not> file_exists (fs w2) (distro_path_of env distro url sz)
       \<and> cmds w2 = cmds w @ [snprintf (MAX_PATH * 3) (curl_line (distro_path_of env distro url sz) url)]"
proof -
  let ?p = "distro_path_of env distro url sz"
  have m: "\<not> file_exists (fs w) ?p"
  proof
    assume "file_exists (fs w) ?p"
    from ensure_distro_hit [OF assms(2) this] assms(1) show False by simp
  qed
  from ensure_distro_miss [OF assms(2) m] assms(1)
  have c: "cmds w2 = cmds w @ [snprintf (MAX_PATH * 3) (curl_line ?p url)]" by simp
  from assms m obtain v where "w2 = remove ?p v"
    by (auto simp: ensure_distro_def Let_def case_prod_beta split: if_splits)
  then have "\<not> file_exists (fs w2) ?p" by (simp add: remove_not_file)
  from this c show ?thesis by (rule conjI)
qed

text \<open>
  C4, as amended. For every catalogued distro: when the cached file exists,
  \<open>ensure_distro\<close> returns its path and leaves the world as it is (no download, no
  command at all); when a call succeeds, a second call for the same distro returns the same
  path without running a command, and the first call ran at most the one download; and
  when the paths fit their buffers the cache path is
  \<open><home>/.v4m/distros/<distro>/<basename of url>\<close>. When a call fails, it has run
  the download, no file is left at the cache path (the program removes what the transfer
  left), and a second call for the same distro runs the download again.
\<close>

theorem ensure_distro_cache:
  assumes "get_distro_url distro = Some url"
  shows "(file_exists (fs w) (distro_path_of env distro url sz) \<longrightarrow>
            ensure_distro env distro sz w = (Some (distro_path_of env distro url sz), w))
       \<and> (ensure_distro env distro sz w = (Some p, w1) \<and> home env2 = home env \<longrightarrow>
            ensure_distro env2 distro sz w1 = (Some p, w1)
            \<and> (cmds w1 = cmds w \<or> cmds w1 = cmds w @ [curl_line p url]))
       \<and> (length (home env) \<le> 900 \<longrightarrow>
            distro_path_of env distro url MAX_PATH
              = home env @ ''/.v4m/distros/'' @ distro @ ''/'' @ basename url)
       \<and> (ensure_distro env distro sz w = (None, w2) \<and> home env2 = home env \<longrightarrow>
            \<not> file_exists (fs w2) (distro_path_of env distro url sz)
            \<and> cmds w2 = cmds w @ [snprintf (MAX_PATH * 3)
                                       (curl_line (distro_path_of env distro url sz) url)]
            \<and> cmds (snd (ensure_distro env2 distro sz w2))
                = cmds w2 @ [snprintf (MAX_PATH * 3)
                              (curl_line (distro_path_of env distro url sz) url)])"
proof -
  have 1: "file_exists (fs w) (distro_path_of env distro url sz) \<longrightarrow>
            ensure_distro env distro sz w = (Some (distro_path_of env distro url sz), w)"
    using ensure_distro_hit [OF assms] by (rule impI)
  have 2: "ensure_distro env distro sz w = (Some p, w1) \<and> home env2 = home env \<longrightarrow>
            ensure_distro env2 distro sz w1 = (Some p, w1)
            \<and> (cmds w1 = cmds w \<or> cmds w1 = cmds w @ [curl_line p url])"
  proof
    assume a: "ensure_distro env distro sz w = (Some p, w1) \<and> home env2 = home env"
    note s = ensure_distro_Some [OF conjunct1 [OF a] assms]
    have p: "p = distro_path_of env2 distro url sz"
      using conjunct1 [OF s] distro_path_of_home [OF conjunct2 [OF a]] by (rule trans [OF _ sym])
    have f: "file_exists (fs w1) (distro_path_of env2 distro url sz)"
      using conjunct1 [OF conjunct2 [OF s]] unfolding p .
    have "ensure_distro env2 distro sz w1 = (Some (distro_path_of env2 distro url sz), w1)"
      using assms f by (rule ensure_distro_hit)
    then have "ensure_distro env2 distro sz w1 = (Some p, w1)" unfolding p .
    then show "ensure_distro env2 distro sz w1 = (Some p, w1)
            \<and> (cmds w1 = cmds w \<or> cmds w1 = cmds w @ [curl_line p url])"
      using conjunct2 [OF conjunct2 [OF s]] by (rule conjI)
  qed
  have 3: "length (home env) \<le> 900 \<longrightarrow>
            distro_path_of env distro url MAX_PATH
              = home env @ ''/.v4m/distros/'' @ distro @ ''/'' @ basename url"
    using distro_path_of_shape [OF assms] by (rule impI)
  have 4: "ensure_distro env distro sz w = (None, w2) \<and> home env2 = home env \<longrightarrow>
            \<not> file_exists (fs w2) (distro_path_of env distro url sz)
            \<and> cmds w2 = cmds w @ [snprintf (MAX_PATH * 3)
                                       (curl_line (distro_path_of env distro url sz) url)]
            \<and> cmds (snd (ensure_distro env2 distro sz w2))
                = cmds w2 @ [snprintf (MAX_PATH * 3)
                              (curl_line (distro_path_of env distro url sz) url)]"
  proof
    assume a: "ensure_distro env distro sz w = (None, w2) \<and> home env2 = home env"
    note n = ensure_distro_None [OF conjunct1 [OF a] assms]
    note h = distro_path_of_home [OF conjunct2 [OF a], of distro url sz]
    have m: "\<not> file_exists (fs w2) (distro_path_of env2 distro url sz)"
      using conjunct1 [OF n] unfolding h .
    have "cmds (snd (ensure_distro env2 distro sz w2))
                = cmds w2 @ [snprintf (MAX_PATH * 3)
                              (curl_line (distro_path_of env distro url sz) url)]"
      using ensure_distro_miss [OF assms m] unfolding h .
    from conjunct1 [OF n] conjunct2 [OF n] this
    show "\<not> file_exists (fs w2) (distro_path_of env distro url sz)
            \<and> cmds w2 = cmds w @ [snprintf (MAX_PATH * 3)
                                       (curl_line (distro_path_of env distro url sz) url)]
            \<and> cmds (snd (ensure_distro env2 distro sz w2))
                = cmds w2 @ [snprintf (MAX_PATH * 3)
                              (curl_line (distro_path_of env distro url sz) url)]"
      by (intro conjI)
  qed
  from 1 2 3 4 show ?thesis by (intro conjI)
qed

subsection \<open>Command line\<close>









subsection \<open>Saving the record\<close>

text \<open>
  C8, as amended. When the pipeline has reached the point where it saves the record and
  \<open>fopen\<close> of \<open>vm-info.json\<close> fails, saving changes nothing and prints nothing:
  the failure is not reported. It is not fatal either: the pipeline prints
  "VM created successfully" and goes on to launch the VM.
\<close>

theorem vm_info_failure_silent:
  assumes "create_vm_disk env vm_name distro w = Inr (vm_mac, w1)"
    and "create_cloud_init env vm_name username password (vm_dir_of env vm_name)
           (log_info ''Configuring cloud-init...'' w1) = (0, w3)"
    and "create_vm_iso env (vm_dir_of env vm_name) w3 = Inr w4"
    and "\<not> can_write env (fs w4) (snprintf MAX_PATH (vm_dir_of env vm_name @ ''/vm-info.json''))"
  shows "create_vm_info env vm_name distro username password vm_mac (vm_dir_of env vm_name) w4 = w4
       \<and> create_vm env vm_name distro username password w =
           start_vm env vm_name vm_mac (vm_dir_of env vm_name)
             (w4\<lparr>out := out w4 @ [(Success, ''VM created successfully'')]\<rparr>)"
  using assms by (simp add: create_vm_def create_vm_info_def log_success_def Let_def)

subsection \<open>Failures after disk provisioning\<close>


lemma hash_password_out: "out (snd (hash_password env password sz w)) = out w"
  by (simp add: hash_password_def Let_def split: option.splits)


lemma system_fs_fail: "fst (system env command effect w) \<noteq> 0 \<Longrightarrow> fs (snd (system env command effect w)) = fs w"
  by (simp add: system_def Let_def split: if_splits option.splits)

lemma system_out: "out (snd (system env command effect w)) = out w"
  by (simp add: system_def Let_def split: if_splits option.splits)

lemma system_buf_fs_fail:
  "fst (system_buf env sz full effect w) \<noteq> 0 \<Longrightarrow> fs (snd (system_buf env sz full effect w)) = fs w"
  unfolding system_buf_def Let_def by (rule system_fs_fail)

lemma system_buf_out: "out (snd (system_buf env sz full effect w)) = out w"
  unfolding system_buf_def Let_def by (rule system_out)












subsection \<open>Guest configuration\<close>

lemma hash_password_Some:
  assumes "fst (hash_password env password sz w) = Some h"
  shows "\<exists>printed. cmd_out env (snprintf (MAX_PATH * 2) (hash_line password)) = Some printed
           \<and> printed \<noteq> [] \<and> h = strip_newline (read_line (sz - 1) printed)"
  using assms
  by (auto simp: hash_password_def fgets_def Let_def split: option.splits if_splits)

text \<open>
  What \<open>create_cloud_init\<close> writes when it succeeds (and the path of the document fits
  its buffer): the VM's name as hostname and, followed by \<open>.local\<close>, as FQDN, the
  requested username, and the same \<open>passwd\<close> string for the user and for root: the
  first line that the hashing command printed, without its newline.
\<close>

lemma user_data_document:
  assumes "create_cloud_init env vm_name username password vm_dir w = (0, w')"
    and "length vm_dir + 10 < MAX_PATH"
  shows "\<exists>printed h pre mid post.
           cmd_out env (snprintf (MAX_PATH * 2) (hash_line password)) = Some printed
         \<and> printed \<noteq> []
         \<and> h = strip_newline (read_line (MAX_PATH - 1) printed)
         \<and> file_at (fs w') (vm_dir @ ''/user-data'') = Some (Bytes
              (pre @ ''hostname: '' @ vm_name @ [nl]
                   @ ''fqdn: '' @ vm_name @ ''.local'' @ [nl]
                   @ mid
                   @ ''  - name: '' @ username @ [nl]
                   @ ''    sudo: ALL=(ALL) NOPASSWD:ALL'' @ [nl]
                   @ ''    groups: [sudo, users]'' @ [nl]
                   @ ''    shell: /bin/bash'' @ [nl]
                   @ ''    lock_passwd: false'' @ [nl]
                   @ ''    passwd: '' @ h @ [nl]
                   @ ''  - name: root'' @ [nl]
                   @ ''    lock_passwd: false'' @ [nl]
                   @ ''    passwd: '' @ h @ [nl, nl]
                   @ post))"
proof -
  let ?up = "vm_dir @ ''/user-data''" and ?mp = "vm_dir @ ''/meta-data''"
  from assms(2) have up: "snprintf MAX_PATH ?up = ?up" and mp: "snprintf MAX_PATH ?mp = ?mp"
    by (simp_all add: snprintf_fits)
  obtain r w1 where hp: "hash_password env password MAX_PATH w = (r, w1)"
    by (cases "hash_password env password MAX_PATH w")
  from assms(1) hp obtain h where r: "r = Some h"
    by (cases r) (simp_all add: create_cloud_init_def Let_def)
  let ?doc = "concat (user_data vm_name username h)"
  from assms(1) have w': "fs w' = (fs w1)(?up \<mapsto> File (Bytes ?doc),
                             ?mp \<mapsto> File (Bytes (concat (meta_data vm_name (time_at env (ticks w1))))))"
    unfolding create_cloud_init_def Let_def hp r up mp
    by (auto simp: write_file_def time_null_def split: if_splits)
  have f: "file_at (fs w') ?up = Some (Bytes ?doc)"
    unfolding w' by (simp add: file_at_def)
  from hp r have "fst (hash_password env password MAX_PATH w) = Some h" by simp
  from hash_password_Some [OF this] obtain printed where
    o: "cmd_out env (snprintf (MAX_PATH * 2) (hash_line password)) = Some printed"
      "printed \<noteq> []" "h = strip_newline (read_line (MAX_PATH - 1) printed)"
    by (elim exE conjE)
  let ?pre = "''#cloud-config'' @ [nl, nl] @ ''# System settings'' @ [nl]"
  let ?mid = "concat (take 13 (drop 4 (user_data vm_name username h)))"
  let ?post = "concat (drop 26 (user_data vm_name username h))"
  have g: "?doc = ?pre @ ''hostname: '' @ vm_name @ [nl]
                   @ ''fqdn: '' @ vm_name @ ''.local'' @ [nl]
                   @ ?mid
                   @ ''  - name: '' @ username @ [nl]
                   @ ''    sudo: ALL=(ALL) NOPASSWD:ALL'' @ [nl]
                   @ ''    groups: [sudo, users]'' @ [nl]
                   @ ''    shell: /bin/bash'' @ [nl]
                   @ ''    lock_passwd: false'' @ [nl]
                   @ ''    passwd: '' @ h @ [nl]
                   @ ''  - name: root'' @ [nl]
                   @ ''    lock_passwd: false'' @ [nl]
                   @ ''    passwd: '' @ h @ [nl, nl]
                   @ ?post"
    by (simp add: user_data_def)
  from o f [unfolded g] show ?thesis
    by (intro exI [of _ printed] exI [of _ h] exI [of _ ?pre] exI [of _ ?mid] exI [of _ ?post] conjI)
qed

subsection \<open>Concrete runs\<close>

lemma vm_dir_demo1: "vm_dir_of env0 ''demo1'' = ''/h/.v4m/vms/demo1''"
  by (simp add: vm_dir_of_def snprintf_def MAX_PATH_def env0_def)

text \<open>Witness for C5: the directory of \<open>demo1\<close> exists.\<close>

theorem create_vm_name_collision_witness:
  "dir_exists (fs world_demo1) (vm_dir_of env0 ''demo1'')
   \<and> create_vm env0 ''demo1'' ''debian12'' ''alice'' ''secret'' world_demo1 =
       (1, world_demo1\<lparr>out := out world_demo1 @ [(Info, ''Creating VM...''), (Error, ''VM already exists'')]\<rparr>)"
proof -
  have h: "dir_exists (fs world_demo1) (vm_dir_of env0 ''demo1'')"
    unfolding vm_dir_demo1 by (simp add: dir_exists_def world_demo1_def)
  from create_vm_name_collision [OF h] h show ?thesis by (rule conjI [rotated])
qed

text \<open>Witness for C1 as amended: the distro \<open>bogus\<close>.\<close>

theorem unknown_distro_fails_witness:
  "''bogus'' \<notin> {''debian12'', ''ubuntu22'', ''ubuntu24''}
   \<and> ensure_distro env0 ''bogus'' MAX_PATH world1
       = (None, world1\<lparr>out := out world1 @ [(Error, ''Unknown distro'')]\<rparr>)
   \<and> fst (create_vm env0 ''demo1'' ''bogus'' ''alice'' ''secret'' world1) = 1"
proof -
  have h: "''bogus'' \<notin> {''debian12'', ''ubuntu22'', ''ubuntu24''}" by simp
  from unknown_distro_fails [OF h, of env0 MAX_PATH world1 "''demo1''" "''alice''" "''secret''"] h
  show ?thesis by simp
qed

lemmas main_eval = main_def fill_defaults_def initial_opts_def check_root_def init_dirs_def
  system_def no_effect_def qemu_check_line_def create_vm_def create_vm_disk_def ensure_distro_def get_distro_url_def
  vm_dir_of_def mkdir_def parent_dir_def dirname_def dir_exists_def log_info_def log_error_def
  snprintf_def strncpy_def MAX_PATH_def MAX_NAME_def DEFAULT_DISTRO_def DEFAULT_USER_def
  env0_def world0_def Let_def

text \<open>
  C1 as the specification states it fails: the run
  \<open>--name demo1 --distro bogus --pass secret\<close> from an empty home directory exits with 1
  and "Unknown distro", and has created the directory \<open>vms/demo1\<close>.
\<close>

theorem unknown_distro_counterexample:
  "fst (main env0 [''--name'', ''demo1'', ''--distro'', ''bogus'', ''--pass'', ''secret''] world0) = 1
   \<and> last (out (snd (main env0 [''--name'', ''demo1'', ''--distro'', ''bogus'', ''--pass'', ''secret''] world0)))
       = (Error, ''Unknown distro'')
   \<and> fs world0 ''/h/.v4m/vms/demo1'' = None
   \<and> fs (snd (main env0 [''--name'', ''demo1'', ''--distro'', ''bogus'', ''--pass'', ''secret''] world0))
        ''/h/.v4m/vms/demo1'' = Some Dir"
  by (simp add: main_eval)

lemma debian_catalogued: "get_distro_url ''debian12'' = Some debian_url"
  by (simp add: get_distro_url_def debian_url_def)

lemma debian_path_h:
  "home env = ''/h'' \<Longrightarrow> distro_path_of env ''debian12'' debian_url MAX_PATH = debian_path"
  unfolding debian_url_def debian_path_def distro_path_of_def distro_dir_of_def basename_debian12
  by (simp add: snprintf_def MAX_PATH_def)

lemma debian_dir_h:
  "home env = ''/h'' \<Longrightarrow> distro_dir_of env ''debian12'' = ''/h/.v4m/distros/debian12''"
  unfolding distro_dir_of_def by (simp add: snprintf_def MAX_PATH_def)

lemma curl_line_fits: "length (curl_line debian_path debian_url) < MAX_PATH * 3"
  by (simp add: curl_line_def debian_path_def debian_url_def MAX_PATH_def)

text \<open>\<open>ensure_distro\<close> for the Debian image when \<open>HOME\<close> is \<open>/h\<close>.\<close>

lemma ensure_distro_debian:
  assumes "home env = ''/h''"
  shows "ensure_distro env ''debian12'' MAX_PATH w =
     (if file_exists (fs w) debian_path then (Some debian_path, w)
      else case system env (curl_line debian_path debian_url)
                  (curl_effect env debian_path debian_url)
                  (mkdir ''/h/.v4m/distros/debian12'' (log_info ''Downloading distro...'' w)) of
             (rc, w3) \<Rightarrow>
               if rc \<noteq> 0
               then (None, remove debian_path
                             (log_error ''Failed to download distro''
                                (w3\<lparr>fs := curl_partial env debian_path debian_url (fs w3)\<rparr>)))
               else (Some debian_path, log_success ''Downloaded distro'' w3))"
  unfolding ensure_distro_def debian_catalogued option.case Let_def
    debian_path_h [OF assms] debian_dir_h [OF assms]
  by (simp add: system_buf_def snprintf_fits [OF curl_line_fits])

lemma home_env0: "home env0 = ''/h''" by (simp add: env0_def)
lemma home_env_off: "home env_off = ''/h''" by (simp add: env_off_def env0_def)
lemma home_env_cut: "home env_cut = ''/h''" by (simp add: env_cut_def env_off_def env0_def)

lemmas cache_eval = file_exists_def mkdir_def parent_dir_def dirname_def curl_effect_def
  curl_partial_def
  system_def remove_def log_info_def log_error_def log_success_def
  debian_path_def env0_def env_off_def env_cut_def world1_def world_cached_def Let_def

lemma first_call: "fst (ensure_distro env0 ''debian12'' MAX_PATH world1) = Some debian_path"
  unfolding ensure_distro_debian [OF home_env0] by (simp add: cache_eval)

lemma failed_call: "fst (ensure_distro env_cut ''debian12'' MAX_PATH world1) = None"
  unfolding ensure_distro_debian [OF home_env_cut] by (simp add: cache_eval)

text \<open>
  Witness for C4 as amended: a cache hit in \<open>world_cached\<close>; a download in
  \<open>world1\<close> followed by a second call that needs no working command; and a download
  that fails and leaves a partial file, followed by a second call.
\<close>

theorem ensure_distro_cache_witness:
  "get_distro_url ''debian12'' = Some debian_url
   \<and> file_exists (fs world_cached) (distro_path_of env0 ''debian12'' debian_url MAX_PATH)
   \<and> ensure_distro env0 ''debian12'' MAX_PATH world_cached = (Some debian_path, world_cached)
   \<and> fst (ensure_distro env0 ''debian12'' MAX_PATH world1) = Some debian_path
   \<and> ensure_distro env_off ''debian12'' MAX_PATH (snd (ensure_distro env0 ''debian12'' MAX_PATH world1))
       = (Some debian_path, snd (ensure_distro env0 ''debian12'' MAX_PATH world1))
   \<and> length (home env0) \<le> 900
   \<and> distro_path_of env0 ''debian12'' debian_url MAX_PATH
       = home env0 @ ''/.v4m/distros/'' @ ''debian12'' @ ''/'' @ basename debian_url
   \<and> fst (ensure_distro env_cut ''debian12'' MAX_PATH world1) = None
   \<and> \<not> file_exists (fs (snd (ensure_distro env_cut ''debian12'' MAX_PATH world1))) debian_path
   \<and> cmds (snd (ensure_distro env_cut ''debian12'' MAX_PATH
                  (snd (ensure_distro env_cut ''debian12'' MAX_PATH world1))))
       = cmds (snd (ensure_distro env_cut ''debian12'' MAX_PATH world1))
           @ [snprintf (MAX_PATH * 3) (curl_line debian_path debian_url)]"
proof -
  note c = debian_catalogued
  have f: "file_exists (fs world_cached) (distro_path_of env0 ''debian12'' debian_url MAX_PATH)"
    unfolding debian_path_h [OF home_env0] by (simp add: file_exists_def world_cached_def debian_path_def)
  have l: "length (home env0) \<le> 900" by (simp add: env0_def)
  have h: "home env_off = home env0" by (simp add: env_off_def)
  let ?w1 = "snd (ensure_distro env0 ''debian12'' MAX_PATH world1)"
  let ?w2 = "snd (ensure_distro env_cut ''debian12'' MAX_PATH world1)"
  have e: "ensure_distro env0 ''debian12'' MAX_PATH world1 = (Some debian_path, ?w1)"
    using first_call by (simp add: prod_eq_iff)
  have e2: "ensure_distro env_cut ''debian12'' MAX_PATH world1 = (None, ?w2)"
    using failed_call by (simp add: prod_eq_iff)
  note t1 = ensure_distro_cache [OF c, of world_cached env0 MAX_PATH]
  note t2 = ensure_distro_cache [OF c, of world1 env0 MAX_PATH debian_path ?w1 env_off]
  note t3 = ensure_distro_cache [OF c, of world1 env_cut MAX_PATH _ _ env_cut ?w2,
      unfolded debian_path_h [OF home_env_cut]]
  have a: "ensure_distro env0 ''debian12'' MAX_PATH world_cached = (Some debian_path, world_cached)"
    using mp [OF conjunct1 [OF t1] f] unfolding debian_path_h [OF home_env0] .
  have b: "ensure_distro env_off ''debian12'' MAX_PATH ?w1 = (Some debian_path, ?w1)"
    using conjunct1 [OF mp [OF conjunct1 [OF conjunct2 [OF t2]] conjI [OF e h]]] .
  have d: "distro_path_of env0 ''debian12'' debian_url MAX_PATH
       = home env0 @ ''/.v4m/distros/'' @ ''debian12'' @ ''/'' @ basename debian_url"
    using mp [OF conjunct1 [OF conjunct2 [OF conjunct2 [OF t1]]] l] .
  note g = mp [OF conjunct2 [OF conjunct2 [OF conjunct2 [OF t3]]] conjI [OF e2 refl]]
  from c f a first_call b l d failed_call conjunct1 [OF g] conjunct2 [OF conjunct2 [OF g]]
  show ?thesis by (intro conjI)
qed

text \<open>
  C4 as the specification states it fails: when the download fails, two calls for the same
  distro both fail and run the download twice.
\<close>

theorem ensure_distro_twice_counterexample:
  "fst (ensure_distro env_off ''debian12'' MAX_PATH world1) = None
   \<and> fst (ensure_distro env_off ''debian12'' MAX_PATH
            (snd (ensure_distro env_off ''debian12'' MAX_PATH world1))) = None
   \<and> cmds (snd (ensure_distro env_off ''debian12'' MAX_PATH
                  (snd (ensure_distro env_off ''debian12'' MAX_PATH world1))))
       = [curl_line debian_path debian_url, curl_line debian_path debian_url]"
  unfolding ensure_distro_debian [OF home_env_off] by (simp add: cache_eval)

lemma read_line_Nil: "read_line n [] = []"
  by (cases n) simp_all

lemma read_line_Cons:
  "0 < n \<Longrightarrow> read_line n (c # s) = (if c = nl then [c] else c # read_line (n - 1) s)"
  by (cases n) simp_all




lemma system_buf_fits:
  "length full < sz \<Longrightarrow> system_buf env sz full effect w = system env full effect w"
  by (simp add: system_buf_def snprintf_fits)

lemma qemu_line_fits:
  "length a \<le> 1023 \<Longrightarrow> length b \<le> 1023 \<Longrightarrow> length c \<le> 1023 \<Longrightarrow> length d \<le> 15 \<Longrightarrow>
   length e \<le> 17 \<Longrightarrow> length f \<le> 1023 \<Longrightarrow> length g \<le> 1023 \<Longrightarrow> length h \<le> 1023 \<Longrightarrow>
   length (qemu_line a b c d e f g h) < 10240"
  by (simp add: qemu_line_def DEFAULT_CPUS_def DEFAULT_MEMORY_def)

lemma qemu_line_take: "take 5 (qemu_line a b c d e f g h) = ''nohup''"
  "take 2 (qemu_line a b c d e f g h) = ''no''" "take 7 (qemu_line a b c d e f g h) = ''nohup q''"
  by (simp_all add: qemu_line_def)

lemma home1: "home env1 = ''/h''" "home env_dd = ''/h''" "home env_iso = ''/h''"
  "home env_qemu = ''/h''" "home env_noinfo = ''/h''" "home env0 = ''/h''"
  by (simp_all add: env1_def env_dd_def env_iso_def env_qemu_def env_noinfo_def env0_def)

lemma vm_dir_h: "home env = ''/h'' \<Longrightarrow> vm_dir_of env ''demo1'' = demo1_dir"
  by (simp add: vm_dir_of_def demo1_dir_def snprintf_def MAX_PATH_def)

lemmas envs = env0_def env1_def env_dd_def env_iso_def env_qemu_def env_noinfo_def

text \<open>The first part of \<open>create_vm\<close> from the cached image when \<open>HOME\<close> is \<open>/h\<close>.\<close>

lemma create_vm_disk_h:
  assumes "home env = ''/h''"
  shows "create_vm_disk env ''demo1'' ''debian12'' world_cached =
    (case copy_file env debian_path (demo1_dir @ ''/disk.qcow2'')
            (log_info ''Setting up VM disk...''
               (mkdir demo1_dir (log_info ''Creating VM...'' world_cached))) of
       (rc, w4) \<Rightarrow>
         if rc \<noteq> 0 then Inl (log_error ''Failed to copy disk image'' w4)
         else (case system env (''qemu-img resize '' @ dq @ demo1_dir @ ''/disk.qcow2'' @ dq
                         @ '' 20G >/dev/null'') (resize_effect env (demo1_dir @ ''/disk.qcow2'')) w4 of
                 (rc, w5) \<Rightarrow>
                   if rc \<noteq> 0 then Inl (log_error ''Failed to resize disk'' w5)
                   else (case generate_mac env 18 w5 of
                           (vm_mac, w6) \<Rightarrow>
                             Inr (vm_mac, snd (system env dd_line0
                                    (dd_effect (demo1_dir @ ''/efi-vars.fd'')) w6)))))"
  unfolding create_vm_disk_def vm_dir_h [OF assms] ensure_distro_debian [OF assms]
  by (simp add: demo1_dir_def dd_line0_def debian_path_def world_cached_def world1_def
        file_exists_def dir_exists_def mkdir_def log_info_def parent_dir_def dirname_def
        system_buf_fits snprintf_fits MAX_PATH_def DEFAULT_DISK_SIZE_def Let_def
        case_prod_beta)

lemmas stage_eval = copy_file_def system_buf_fits system_def system_bg_def shell_safe_def cp_effect_def
  resize_effect_def dd_effect_def iso_effect_def rm_effect_def rm_rf_def redirect_effect_def
  file_at_def mkdir_def remove_def can_write_def write_file_def parent_dir_def dirname_def
  basename_def under_def file_exists_def dir_exists_def generate_mac_def hex2_def
  time_null_def srand_def rand_def log_info_def log_error_def log_success_def
  snprintf_fits strncpy_def fgets_def strip_newline_def get_default_interface_def
  qemu_line_fits qemu_line_take dec_small digit_def temp_dir_of_def rm_both_line_def
  read_line_Nil read_line_Cons
  hash_password_def hash_line_def
  MAX_PATH_def MAX_NAME_def demo1_dir_def dd_line0_def mac0_def
  debian_path_def world1_def world_cached_def world_demo1_def Let_def

lemma Inr_pair: "\<not> isl x \<and> fst (projr x) = m \<Longrightarrow> x = Inr (m, snd (projr x))"
  by (cases x) auto

lemma Inr_projr: "\<not> isl x \<Longrightarrow> x = Inr (projr x)"
  by (cases x) auto


lemma pair_snd: "fst x = a \<Longrightarrow> x = (a, snd x)"
  by (cases x) auto

lemmas cloud_unfold = w_cloud_def create_cloud_init_def w_disk_def
lemmas iso_unfold = w_iso_def w_iso_failed_def create_vm_iso_def cloud_unfold




lemma disk_env_noinfo: "create_vm_disk env_noinfo ''demo1'' ''debian12'' world_cached = Inr (mac0, w_disk env_noinfo)"
  unfolding w_disk_def
  by (rule Inr_pair, unfold create_vm_disk_h [OF home1(5)]) (simp add: stage_eval envs)



lemma cloud_env_noinfo:
  "create_cloud_init env_noinfo ''demo1'' ''alice'' ''secret'' demo1_dir
     (log_info ''Configuring cloud-init...'' (w_disk env_noinfo)) = (0, w_cloud env_noinfo)"
  unfolding w_cloud_def
  by (rule pair_snd, unfold cloud_unfold create_vm_disk_h [OF home1(5)]) (simp add: stage_eval envs)



lemma iso_env_noinfo: "create_vm_iso env_noinfo demo1_dir (w_cloud env_noinfo) = Inr (w_iso env_noinfo)"
  unfolding w_iso_def
  by (rule Inr_projr, unfold iso_unfold create_vm_disk_h [OF home1(5)]) (simp add: stage_eval envs)

lemma info_env_noinfo:
  "\<not> can_write env_noinfo (fs (w_iso env_noinfo)) (snprintf MAX_PATH (demo1_dir @ ''/vm-info.json''))"
  by (simp add: can_write_def env_noinfo_def snprintf_def MAX_PATH_def demo1_dir_def basename_def)


text \<open>Witness for C8 as amended: \<open>fopen\<close> of \<open>vm-info.json\<close> fails in \<open>env_noinfo\<close>.\<close>

theorem vm_info_failure_silent_witness:
  "create_vm_disk env_noinfo ''demo1'' ''debian12'' world_cached = Inr (mac0, w_disk env_noinfo)
   \<and> create_cloud_init env_noinfo ''demo1'' ''alice'' ''secret'' demo1_dir
        (log_info ''Configuring cloud-init...'' (w_disk env_noinfo)) = (0, w_cloud env_noinfo)
   \<and> create_vm_iso env_noinfo demo1_dir (w_cloud env_noinfo) = Inr (w_iso env_noinfo)
   \<and> \<not> can_write env_noinfo (fs (w_iso env_noinfo)) (snprintf MAX_PATH (demo1_dir @ ''/vm-info.json''))
   \<and> create_vm env_noinfo ''demo1'' ''debian12'' ''alice'' ''secret'' world_cached =
        start_vm env_noinfo ''demo1'' mac0 demo1_dir
          ((w_iso env_noinfo)\<lparr>out := out (w_iso env_noinfo) @ [(Success, ''VM created successfully'')]\<rparr>)"
proof -
  note t = vm_info_failure_silent [of env_noinfo "''demo1''" "''debian12''" world_cached mac0
      "w_disk env_noinfo" "''alice''" "''secret''" "w_cloud env_noinfo" "w_iso env_noinfo",
      unfolded vm_dir_h [OF home1(5)], OF disk_env_noinfo cloud_env_noinfo iso_env_noinfo info_env_noinfo]
  from disk_env_noinfo cloud_env_noinfo iso_env_noinfo info_env_noinfo conjunct2 [OF t]
  show ?thesis by (intro conjI)
qed

text \<open>
  C8 as the specification states it fails: in \<open>env_noinfo\<close> the record cannot be written,
  the run succeeds, and none of the lines it prints reports the failure.
\<close>

theorem vm_info_failure_counterexample:
  "\<not> open_ok env_noinfo ''/h/.v4m/vms/demo1/vm-info.json''
   \<and> fst (create_vm env_noinfo ''demo1'' ''debian12'' ''alice'' ''secret'' world_cached) = 0
   \<and> fs (snd (create_vm env_noinfo ''demo1'' ''debian12'' ''alice'' ''secret'' world_cached))
        ''/h/.v4m/vms/demo1/vm-info.json'' = None
   \<and> out (snd (create_vm env_noinfo ''demo1'' ''debian12'' ''alice'' ''secret'' world_cached)) =
        [(Info, ''Creating VM...''), (Info, ''Setting up VM disk...''),
         (Info, ''Configuring cloud-init...''), (Success, ''VM created successfully''),
         (Info, ''Starting VM...''), (Success, ''VM started''),
         (Info, ''Waiting for VM to boot...'')]"
proof -
  have a: "\<not> open_ok env_noinfo ''/h/.v4m/vms/demo1/vm-info.json''"
    by (simp add: env_noinfo_def basename_def)
  have "case create_vm env_noinfo ''demo1'' ''debian12'' ''alice'' ''secret'' world_cached of
          (rc, w) \<Rightarrow> rc = 0 \<and> fs w ''/h/.v4m/vms/demo1/vm-info.json'' = None
            \<and> out w = [(Info, ''Creating VM...''), (Info, ''Setting up VM disk...''),
                 (Info, ''Configuring cloud-init...''), (Success, ''VM created successfully''),
                 (Info, ''Starting VM...''), (Success, ''VM started''),
                 (Info, ''Waiting for VM to boot...'')]"
    unfolding create_vm_def vm_dir_h [OF home1(5)] create_vm_disk_h [OF home1(5)]
    by (simp add: create_vm_iso_def create_vm_info_def create_cloud_init_def start_vm_def
          show_vm_info_def stage_eval envs)
  with a show ?thesis by (simp only: case_prod_beta simp_thms)
qed

text \<open>
  C3: the code does not do what the claim says. In \<open>env_dd\<close> the command \<open>dd\<close>
  fails. The pipeline runs it, goes on to the guest configuration and to the launch, and
  returns 0; the firmware-variable file does not exist.
\<close>

theorem dd_failure_ignored:
  "\<not> cmd_ok env_dd dd_line0
   \<and> dd_line0 \<in> set (cmds (snd (create_vm env_dd ''demo1'' ''debian12'' ''alice'' ''secret'' world_cached)))
   \<and> fst (create_vm env_dd ''demo1'' ''debian12'' ''alice'' ''secret'' world_cached) = 0
   \<and> fs (snd (create_vm env_dd ''demo1'' ''debian12'' ''alice'' ''secret'' world_cached))
        ''/h/.v4m/vms/demo1/efi-vars.fd'' = None
   \<and> file_exists (fs (snd (create_vm env_dd ''demo1'' ''debian12'' ''alice'' ''secret'' world_cached)))
        ''/h/.v4m/vms/demo1/user-data''"
proof -
  have a: "\<not> cmd_ok env_dd dd_line0" by (simp add: env_dd_def dd_line0_def)
  have "case create_vm env_dd ''demo1'' ''debian12'' ''alice'' ''secret'' world_cached of
          (rc, w) \<Rightarrow> dd_line0 \<in> set (cmds w) \<and> rc = 0
            \<and> fs w ''/h/.v4m/vms/demo1/efi-vars.fd'' = None
            \<and> file_exists (fs w) ''/h/.v4m/vms/demo1/user-data''"
    unfolding create_vm_def vm_dir_h [OF home1(2)] create_vm_disk_h [OF home1(2)]
    by (simp add: create_vm_iso_def create_vm_info_def create_cloud_init_def start_vm_def
          show_vm_info_def stage_eval envs)
  with a show ?thesis by (simp only: case_prod_beta simp_thms)
qed








text \<open>
  C6: the code does not do what the claim says. \<open>hash_password\<close> puts the password
  between double quotes in a shell command line and escapes nothing in it. The password
  \<open>" >/dev/null; echo "\<close> closes the quotes: the command line handed to
  \<open>popen\<close> is \<open>openssl passwd -6 "" >/dev/null; echo ""\<close>, which prints an empty
  line (this is what \<open>env_inj\<close> says). \<open>hash_password\<close> returns 0 with an
  empty string, \<open>create_cloud_init\<close> returns 0, and both \<open>passwd\<close> fields of
  the document it has written are empty.
\<close>

theorem password_quote_not_escaped:
  "hash_line inj_password = ''openssl passwd -6 '' @ dq @ dq @ '' >/dev/null; echo '' @ dq @ dq
   \<and> fst (hash_password env_inj inj_password MAX_PATH world_demo1) = Some []
   \<and> fst (create_cloud_init env_inj ''demo1'' ''alice'' inj_password ''/h/.v4m/vms/demo1'' world_demo1) = 0
   \<and> file_at (fs (snd (create_cloud_init env_inj ''demo1'' ''alice'' inj_password
                        ''/h/.v4m/vms/demo1'' world_demo1))) ''/h/.v4m/vms/demo1/user-data''
       = Some (Bytes (concat (user_data ''demo1'' ''alice'' [])))"
proof -
  have a: "hash_line inj_password = ''openssl passwd -6 '' @ dq @ dq @ '' >/dev/null; echo '' @ dq @ dq"
    by (simp add: hash_line_def inj_password_def)
  have b: "fst (hash_password env_inj inj_password MAX_PATH world_demo1) = Some []"
    by (simp add: stage_eval env_inj_def env0_def inj_password_def)
  have "case create_cloud_init env_inj ''demo1'' ''alice'' inj_password ''/h/.v4m/vms/demo1'' world_demo1 of
          (rc, w) \<Rightarrow> rc = 0 \<and> file_at (fs w) ''/h/.v4m/vms/demo1/user-data''
                          = Some (Bytes (concat (user_data ''demo1'' ''alice'' [])))"
    unfolding create_cloud_init_def by (simp add: stage_eval env_inj_def env0_def inj_password_def)
  with a b show ?thesis by (simp only: case_prod_beta simp_thms)
qed

end
